theory Spec2Isabelle
  imports Complex_Main
begin

section \<open>Python values\<close>

text \<open>
  The exceptions the modelled code can meet. All of them are subclasses of Python's
  \<open>Exception\<close>, so an \<open>except Exception\<close> clause catches every value of this type.
  \<open>LibraryError\<close> stands for whatever an SDK call (MQTT publish, Firehose put, CSV
  read) raises.
\<close>

datatype pyexn =
  TypeError | ValueError | OverflowError | AttributeError | NameError
  | FileNotFoundError | EOFError | LibraryError string

text \<open>
  A Python \<open>float\<close> is an IEEE 754 binary64 number. A finite one is given by its exact
  value; the two zeros, which Python's comparisons do not tell apart, are the one value
  \<open>Finite 0\<close>.
\<close>

datatype pyfloat = Finite real | PInf | NInf | NaN

text \<open>The values \<open>json.loads\<close> can return; a dict keeps its items as an association list.\<close>

datatype pyval =
  VNone | VBool bool | VInt int | VFloat pyfloat | VStr string
  | VList "pyval list" | VDict "(string \<times> pyval) list"

subsection \<open>Rounding to binary64\<close>

text \<open>The number of binary digits of a natural number.\<close>

fun bit_length :: "nat \<Rightarrow> nat" where
  "bit_length n = (if n = 0 then 0 else 1 + bit_length (n div 2))"

declare bit_length.simps [simp del]

definition pow2 :: "int \<Rightarrow> real" where
  "pow2 e = (if 0 \<le> e then 2 ^ nat e else 1 / 2 ^ nat (- e))"

text \<open>
  \<open>ilog2 x\<close> is the exponent \<open>d\<close> with \<open>2^d \<le> |x| < 2^(d+1)\<close>, for \<open>x \<noteq> 0\<close>: read off the
  integer part of \<open>|x|\<close> when \<open>|x| \<ge> 1\<close>, and off the integer part of its inverse otherwise.
\<close>

definition ilog2 :: "real \<Rightarrow> int" where
  "ilog2 x =
     (if 1 \<le> \<bar>x\<bar> then int (bit_length (nat \<lfloor>\<bar>x\<bar>\<rfloor>)) - 1
      else - int (bit_length (nat (\<lceil>1 / \<bar>x\<bar>\<rceil> - 1))))"

text \<open>The nearest integer, a tie going to the even one.\<close>

definition round_half_even :: "real \<Rightarrow> int" where
  "round_half_even m =
     (if m - of_int \<lfloor>m\<rfloor> < 1 / 2 then \<lfloor>m\<rfloor>
      else if 1 / 2 < m - of_int \<lfloor>m\<rfloor> then \<lfloor>m\<rfloor> + 1
      else if even \<lfloor>m\<rfloor> then \<lfloor>m\<rfloor> else \<lfloor>m\<rfloor> + 1)"

text \<open>
  The double \<open>n * 2^e\<close> for a significand \<open>n\<close> of at most 53 bits (\<open>|n| \<le> 2^53\<close>): an
  infinity when its magnitude reaches \<open>2^1024\<close>, that is when \<open>e > 971\<close>, or \<open>e = 971\<close> and
  \<open>|n| = 2^53\<close>.
\<close>

definition pack :: "bool \<Rightarrow> int \<Rightarrow> int \<Rightarrow> pyfloat" where
  "pack positive e n =
     (if 971 < e \<or> (e = 971 \<and> \<bar>n\<bar> = 2 ^ 53) then (if positive then PInf else NInf)
      else Finite (of_int n * pow2 e))"

text \<open>\<open>x\<close> rounded to a multiple of \<open>2^e\<close>.\<close>

definition round_at :: "real \<Rightarrow> int \<Rightarrow> pyfloat" where
  "round_at x e = pack (0 < x) e (round_half_even (x / pow2 e))"

text \<open>
  \<open>fl x\<close> is the binary64 number nearest to \<open>x\<close>, ties to even: 53 significant bits, so the
  spacing is \<open>2^(ilog2 x - 52)\<close>, and no less than \<open>2^-1074\<close> (the subnormal range).
\<close>

definition fl :: "real \<Rightarrow> pyfloat" where
  "fl x = (if x = 0 then Finite 0 else round_at x (max (ilog2 x) (- 1022) - 52))"

subsection \<open>Float arithmetic and comparison\<close>

fun fmul :: "pyfloat \<Rightarrow> pyfloat \<Rightarrow> pyfloat" where
  "fmul NaN b = NaN"
| "fmul a NaN = NaN"
| "fmul (Finite a) (Finite b) = fl (a * b)"
| "fmul (Finite a) PInf = (if a = 0 then NaN else if 0 < a then PInf else NInf)"
| "fmul (Finite a) NInf = (if a = 0 then NaN else if 0 < a then NInf else PInf)"
| "fmul PInf (Finite b) = (if b = 0 then NaN else if 0 < b then PInf else NInf)"
| "fmul NInf (Finite b) = (if b = 0 then NaN else if 0 < b then NInf else PInf)"
| "fmul PInf PInf = PInf"
| "fmul PInf NInf = NInf"
| "fmul NInf PInf = NInf"
| "fmul NInf NInf = PInf"

fun fadd :: "pyfloat \<Rightarrow> pyfloat \<Rightarrow> pyfloat" where
  "fadd NaN b = NaN"
| "fadd a NaN = NaN"
| "fadd (Finite a) (Finite b) = fl (a + b)"
| "fadd PInf NInf = NaN"
| "fadd NInf PInf = NaN"
| "fadd PInf b = PInf"
| "fadd a PInf = PInf"
| "fadd NInf b = NInf"
| "fadd a NInf = NInf"

text \<open>Python's \<open>a >= b\<close> on floats: false as soon as one side is a NaN.\<close>

fun fge :: "pyfloat \<Rightarrow> pyfloat \<Rightarrow> bool" where
  "fge NaN b = False"
| "fge a NaN = False"
| "fge PInf b = True"
| "fge a NInf = True"
| "fge NInf b = False"
| "fge a PInf = False"
| "fge (Finite a) (Finite b) = (b \<le> a)"

subsection \<open>Built-ins of the Python runtime\<close>

text \<open>
  Library functions the code calls and this repository does not define are parameters:
  \<^item> \<open>str_to_float s\<close> is \<open>float(s)\<close> for a \<open>str\<close>, \<open>None\<close> when it raises \<open>ValueError\<close>;
  \<^item> \<open>json_dumps v\<close> is \<open>json.dumps(v)\<close>;
  \<^item> \<open>json_loads s\<close> is \<open>json.loads(s)\<close>, \<open>None\<close> when it raises;
  \<^item> \<open>utf8_decode b\<close> is \<open>b.decode("utf-8")\<close>, \<open>None\<close> when it raises;
  \<^item> \<open>format_value v\<close> is the text an f-string gives a value that is not a \<open>str\<close>.
\<close>

record pyenv =
  str_to_float :: "string \<Rightarrow> pyfloat option"
  json_dumps :: "pyval \<Rightarrow> string"
  json_loads :: "string \<Rightarrow> pyval option"
  utf8_decode :: "string \<Rightarrow> string option"
  format_value :: "pyval \<Rightarrow> string"

text \<open>Sequencing of calls that may raise: the first exception ends the computation.\<close>

definition bind_exn :: "pyexn + 'a \<Rightarrow> ('a \<Rightarrow> pyexn + 'b) \<Rightarrow> pyexn + 'b" where
  "bind_exn x f = (case x of Inl e \<Rightarrow> Inl e | Inr v \<Rightarrow> f v)"

text \<open>\<open>float(i)\<close> for an \<open>int\<close>: the nearest double, \<open>OverflowError\<close> when there is none.\<close>

definition float_of_int :: "int \<Rightarrow> pyexn + pyfloat" where
  "float_of_int i =
     (case fl (of_int i) of Finite r \<Rightarrow> Inr (Finite r) | _ \<Rightarrow> Inl OverflowError)"

fun py_float :: "pyenv \<Rightarrow> pyval \<Rightarrow> pyexn + pyfloat" where
  "py_float env VNone = Inl TypeError"
| "py_float env (VBool b) = Inr (Finite (if b then 1 else 0))"
| "py_float env (VInt i) = float_of_int i"
| "py_float env (VFloat f) = Inr f"
| "py_float env (VStr s) =
     (case str_to_float env s of None \<Rightarrow> Inl ValueError | Some f \<Rightarrow> Inr f)"
| "py_float env (VList xs) = Inl TypeError"
| "py_float env (VDict kvs) = Inl TypeError"

text \<open>Truth value of an object, as \<open>or\<close> and \<open>if\<close> test it.\<close>

fun truthy :: "pyval \<Rightarrow> bool" where
  "truthy VNone = False"
| "truthy (VBool b) = b"
| "truthy (VInt i) = (i \<noteq> 0)"
| "truthy (VFloat f) = (f \<noteq> Finite 0)"
| "truthy (VStr s) = (s \<noteq> [])"
| "truthy (VList xs) = (xs \<noteq> [])"
| "truthy (VDict kvs) = (kvs \<noteq> [])"

definition py_or :: "pyval \<Rightarrow> pyval \<Rightarrow> pyval" where
  "py_or a b = (if truthy a then a else b)"

text \<open>\<open>obj.get(key, default)\<close>: only a dict has the method.\<close>

fun py_get :: "pyval \<Rightarrow> string \<Rightarrow> pyval \<Rightarrow> pyexn + pyval" where
  "py_get (VDict kvs) k d = Inr (case map_of kvs k of None \<Rightarrow> d | Some v \<Rightarrow> v)"
| "py_get VNone k d = Inl AttributeError"
| "py_get (VBool b) k d = Inl AttributeError"
| "py_get (VInt i) k d = Inl AttributeError"
| "py_get (VFloat f) k d = Inl AttributeError"
| "py_get (VStr s) k d = Inl AttributeError"
| "py_get (VList xs) k d = Inl AttributeError"

section \<open>The emission evaluator (process_emission.py)\<close>

record EmissionProcessor =
  co2_warn_threshold :: pyfloat
  co_warn_threshold :: pyfloat
  nox_warn_threshold :: pyfloat

text \<open>\<open>EmissionProcessor()\<close> with the default arguments of \<open>__init__\<close>.\<close>

definition EmissionProcessor_init :: EmissionProcessor where
  "EmissionProcessor_init =
     \<lparr>co2_warn_threshold = Finite 8000, co_warn_threshold = Finite 200,
      nox_warn_threshold = Finite 5\<rparr>"

text \<open>
  \<open>_safe_float\<close>: \<open>float(value)\<close> with \<open>TypeError\<close> and \<open>ValueError\<close> turned into \<open>0.0\<close>;
  any other exception passes through.
\<close>

definition safe_float :: "pyenv \<Rightarrow> pyval \<Rightarrow> pyexn + pyfloat" where
  "safe_float env v =
     (case py_float env v of
        Inl e \<Rightarrow> if e = TypeError \<or> e = ValueError then Inr (Finite 0) else Inl e
      | Inr f \<Rightarrow> Inr f)"

text \<open>
  \<open>EmissionProcessor.process\<close>. The float literals \<open>0.3\<close> and \<open>0.0005\<close> denote the doubles
  nearest to them. The single \<open>logger.info\<close> call of the method is recorded by its caller
  in the handler below.
\<close>

definition process :: "pyenv \<Rightarrow> EmissionProcessor \<Rightarrow> pyval \<Rightarrow> pyexn + pyval" where
  "process env self event =
     bind_exn (py_get event ''timestep_time'' VNone) (\<lambda>timestep.
     bind_exn (py_get event ''vehicle_id'' VNone) (\<lambda>vid.
     bind_exn (py_get event ''vehicle_CO'' VNone) (\<lambda>v_co.
     bind_exn (safe_float env v_co) (\<lambda>co.
     bind_exn (py_get event ''vehicle_CO2'' VNone) (\<lambda>v_co2.
     bind_exn (safe_float env v_co2) (\<lambda>co2.
     bind_exn (py_get event ''vehicle_NOx'' VNone) (\<lambda>v_nox.
     bind_exn (safe_float env v_nox) (\<lambda>nox.
     bind_exn (py_get event ''vehicle_PMx'' VNone) (\<lambda>v_pmx.
     bind_exn (safe_float env v_pmx) (\<lambda>pmx.
     bind_exn (py_get event ''vehicle_speed'' VNone) (\<lambda>v_speed.
     bind_exn (safe_float env v_speed) (\<lambda>speed.
       let vehicle_id = py_or vid (VStr ''unknown'');
           co2_status = (if fge co2 (co2_warn_threshold self) then ''HIGH'' else ''OK'');
           co_status = (if fge co (co_warn_threshold self) then ''HIGH'' else ''OK'');
           nox_status = (if fge nox (nox_warn_threshold self) then ''HIGH'' else ''OK'');
           emission_score =
             fadd (fadd (fadd (fmul co (fl (3 / 10))) (fmul co2 (fl (5 / 10000))))
                        (fmul nox (Finite 1)))
                  (fmul pmx (Finite 5))
       in Inr (VDict
            [(''vehicle_id'', vehicle_id),
             (''timestep_time'', timestep),
             (''vehicle_CO'', VFloat co),
             (''vehicle_CO2'', VFloat co2),
             (''vehicle_NOx'', VFloat nox),
             (''vehicle_PMx'', VFloat pmx),
             (''vehicle_speed'', VFloat speed),
             (''co2_status'', VStr co2_status),
             (''co_status'', VStr co_status),
             (''nox_status'', VStr nox_status),
             (''emission_score'', VFloat emission_score)])))))))))))))"

text \<open>\<open>lambda_handler\<close>: the module-level processor, built with the defaults.\<close>

definition lambda_handler :: "pyenv \<Rightarrow> pyval \<Rightarrow> pyexn + pyval" where
  "lambda_handler env event = process env EmissionProcessor_init event"

text \<open>The coerced reading of a field: \<open>self._safe_float(event.get(key))\<close>.\<close>

definition coerced :: "pyenv \<Rightarrow> pyval \<Rightarrow> string \<Rightarrow> pyexn + pyfloat" where
  "coerced env event key = bind_exn (py_get event key VNone) (safe_float env)"

subsection \<open>An environment to evaluate with\<close>

text \<open>
  A reader for the strings of ASCII decimal digits, which \<open>float\<close> reads as the nearest
  double to the number they spell.
\<close>

definition digit_of :: "char \<Rightarrow> nat option" where
  "digit_of =
     map_of [(CHR ''0'', 0), (CHR ''1'', 1), (CHR ''2'', 2), (CHR ''3'', 3), (CHR ''4'', 4),
             (CHR ''5'', 5), (CHR ''6'', 6), (CHR ''7'', 7), (CHR ''8'', 8), (CHR ''9'', 9)]"

fun digits_value :: "nat \<Rightarrow> string \<Rightarrow> nat option" where
  "digits_value acc [] = Some acc"
| "digits_value acc (c # cs) =
     (case digit_of c of None \<Rightarrow> None | Some d \<Rightarrow> digits_value (10 * acc + d) cs)"

definition plain_decimal :: "string \<Rightarrow> pyfloat option" where
  "plain_decimal s =
     (if s = [] then None else map_option (\<lambda>n. fl (of_nat n)) (digits_value 0 s))"

section \<open>The outside world\<close>

text \<open>
  Everything the programs do to the outside is recorded, in order, in a trace. A call into
  an SDK is recorded as an attempt whether it returns or raises; whether it raises is
  decided by the SDK, which is a function of the trace so far and the call's arguments
  (\<open>None\<close>: the call returns, \<open>Some e\<close>: it raises \<open>e\<close>). A log entry keeps the level and the
  format string of the logging call.
\<close>

datatype loglevel = INFO | WARNING | EXCEPTION

datatype action =
    Log loglevel string
  | Print string
  | MqttPublish string string nat
  | FirehosePut string string
  | PublishAsync string string string nat
  | IotPublish string nat string
  | Connect string
  | Disconnect string
  | Sleep pyfloat

type_synonym world = "action list"

text \<open>\<open>mqtt_client.publish(topic, payload, qos)\<close> of the AWS IoT SDK.\<close>

type_synonym mqtt = "world \<Rightarrow> string \<Rightarrow> string \<Rightarrow> nat \<Rightarrow> pyexn option"

text \<open>\<open>firehose_client.put_record(DeliveryStreamName=.., Record={"Data": ..})\<close> of boto3.\<close>

type_synonym firehose = "world \<Rightarrow> string \<Rightarrow> string \<Rightarrow> pyexn option"

definition newline :: string where
  "newline = [CHR 0x0A]"

text \<open>The attempts on each sink or transport that a trace holds, in order.\<close>

definition mqtt_publishes :: "world \<Rightarrow> (string \<times> string \<times> nat) list" where
  "mqtt_publishes w =
     concat (map (\<lambda>a. case a of MqttPublish t p q \<Rightarrow> [(t, p, q)] | _ \<Rightarrow> []) w)"

definition firehose_puts :: "world \<Rightarrow> (string \<times> string) list" where
  "firehose_puts w =
     concat (map (\<lambda>a. case a of FirehosePut n d \<Rightarrow> [(n, d)] | _ \<Rightarrow> []) w)"

definition async_publishes :: "world \<Rightarrow> (string \<times> string \<times> string \<times> nat) list" where
  "async_publishes w =
     concat (map (\<lambda>a. case a of PublishAsync d t p q \<Rightarrow> [(d, t, p, q)] | _ \<Rightarrow> []) w)"

definition iot_publishes :: "world \<Rightarrow> (string \<times> nat \<times> string) list" where
  "iot_publishes w =
     concat (map (\<lambda>a. case a of IotPublish t q p \<Rightarrow> [(t, q, p)] | _ \<Rightarrow> []) w)"

section \<open>The Greengrass component (main-mqtt.py)\<close>

text \<open>The logging calls of the module, by level and format string.\<close>

abbreviation log_received :: action where
  "log_received \<equiv> Log INFO ''Received raw event: %s''"

abbreviation log_processed :: action where
  "log_processed \<equiv> Log INFO
     ''Processed emission event for %s at t=%s: co2=%s (%s), co=%s (%s), nox=%s (%s), score=%.3f''"

abbreviation log_publishing :: action where
  "log_publishing \<equiv> Log INFO ''Publishing processed event to topic=%s payload=%s''"

abbreviation log_firehose_sent :: action where
  "log_firehose_sent \<equiv>
     Log INFO ''Sent processed event for vehicle_id=%s to Firehose stream=%s''"

abbreviation log_firehose_failed :: action where
  "log_firehose_failed \<equiv> Log EXCEPTION ''Failed to publish to Firehose: %s''"

abbreviation log_firehose_skipped :: action where
  "log_firehose_skipped \<equiv>
     Log WARNING ''Firehose client not available; skipping Firehose publish.''"

abbreviation log_error :: action where
  "log_error \<equiv> Log EXCEPTION ''Error processing vehicle message: %s''"

abbreviation log_message_received :: action where
  "log_message_received \<equiv> Log INFO ''MQTT message received on topic=%s payload=%s''"

abbreviation log_decode_failed :: action where
  "log_decode_failed \<equiv> Log EXCEPTION ''Failed to decode/parse message: %s''"

definition OUTPUT_TOPIC_PREFIX :: string where
  "OUTPUT_TOPIC_PREFIX = ''iot/Vehicle_''"

definition FIREHOSE_STREAM_NAME :: string where
  "FIREHOSE_STREAM_NAME = ''lab4-vehicle-emissions-stream''"

text \<open>
  \<open>configure_firehose_client\<close>. The module uses the name \<open>boto3\<close> and never imports it, so
  evaluating \<open>boto3.client\<close> raises \<open>NameError\<close>, inside the \<open>try\<close>.
\<close>

definition boto3_client :: "pyexn + firehose" where
  "boto3_client = Inl NameError"

definition configure_firehose_client :: "world \<Rightarrow> firehose option \<times> world" where
  "configure_firehose_client w =
     (let w1 = w @ [Log INFO ''Initializing Firehose client for region %s''] in
      case boto3_client of
        Inr fh \<Rightarrow> (Some fh, w1)
      | Inl e \<Rightarrow> (None, w1 @ [Log EXCEPTION ''Failed to initialize Firehose client: %s'']))"

text \<open>The text an f-string puts for a value: a \<open>str\<close> is copied as it is.\<close>

definition py_format :: "pyenv \<Rightarrow> pyval \<Rightarrow> string" where
  "py_format env v = (case v of VStr s \<Rightarrow> s | _ \<Rightarrow> format_value env v)"

text \<open>\<open>result.get("vehicle_id") or payload.get("vehicle_id") or "unknown"\<close>.\<close>

definition select_vehicle_id :: "pyval \<Rightarrow> pyval \<Rightarrow> pyexn + pyval" where
  "select_vehicle_id result payload =
     bind_exn (py_get result ''vehicle_id'' VNone) (\<lambda>rid.
       if truthy rid then Inr rid
       else bind_exn (py_get payload ''vehicle_id'' VNone) (\<lambda>pid.
              Inr (py_or pid (VStr ''unknown''))))"

text \<open>The statement \<open>if firehose_client: try: put_record .. except .. else: warning\<close>.\<close>

definition publish_to_firehose :: "firehose option \<Rightarrow> string \<Rightarrow> world \<Rightarrow> world" where
  "publish_to_firehose firehose_client result_json w =
     (case firehose_client of
        Some fh \<Rightarrow>
          (let w1 = w @ [FirehosePut FIREHOSE_STREAM_NAME (result_json @ newline)] in
           case fh w FIREHOSE_STREAM_NAME (result_json @ newline) of
             None \<Rightarrow> w1 @ [log_firehose_sent]
           | Some fe \<Rightarrow> w1 @ [log_firehose_failed])
      | None \<Rightarrow> w @ [log_firehose_skipped])"

text \<open>
  The body of the outer \<open>try\<close> of \<open>handle_vehicle_message\<close>: the exception that leaves it, if
  any, and the trace.
\<close>

definition handle_vehicle_message_try ::
  "pyenv \<Rightarrow> mqtt \<Rightarrow> firehose option \<Rightarrow> pyval \<Rightarrow> world \<Rightarrow> pyexn option \<times> world" where
  "handle_vehicle_message_try env mqtt_client firehose_client event w =
     (let w1 = w @ [log_received] in
      case py_get event ''data'' event of
        Inl e \<Rightarrow> (Some e, w1)
      | Inr payload \<Rightarrow>
          (case lambda_handler env payload of
             Inl e \<Rightarrow> (Some e, w1)
           | Inr result \<Rightarrow>
               (let w2 = w1 @ [log_processed]
                in case select_vehicle_id result payload of
                     Inl e \<Rightarrow> (Some e, w2)
                   | Inr vehicle_id \<Rightarrow>
                       (let output_topic = OUTPUT_TOPIC_PREFIX @ py_format env vehicle_id;
                            result_json = json_dumps env result;
                            w3 = w2 @ [log_publishing];
                            w4 = w3 @ [MqttPublish output_topic result_json 0]
                        in case mqtt_client w3 output_topic result_json 0 of
                             Some e \<Rightarrow> (Some e, w4)
                           | None \<Rightarrow>
                               (None, publish_to_firehose firehose_client result_json w4)))))"

text \<open>\<open>handle_vehicle_message\<close>: the \<open>try\<close> with its \<open>except Exception\<close> clause.\<close>

definition handle_vehicle_message ::
  "pyenv \<Rightarrow> mqtt \<Rightarrow> firehose option \<Rightarrow> pyval \<Rightarrow> world \<Rightarrow> pyexn option \<times> world" where
  "handle_vehicle_message env mqtt_client firehose_client event w =
     (case handle_vehicle_message_try env mqtt_client firehose_client event w of
        (None, w') \<Rightarrow> (None, w')
      | (Some e, w') \<Rightarrow> (None, w' @ [log_error]))"

record message =
  payload :: string
  topic :: string

record userdata =
  mqtt_client :: mqtt
  firehose_client :: "firehose option"

text \<open>\<open>json.loads(message.payload.decode("utf-8"))\<close>, \<open>None\<close> when either step raises.\<close>

definition decode_event :: "pyenv \<Rightarrow> message \<Rightarrow> pyval option" where
  "decode_event env message =
     (case utf8_decode env (payload message) of
        None \<Rightarrow> None
      | Some payload_str \<Rightarrow> json_loads env payload_str)"

definition on_message_callback ::
  "pyenv \<Rightarrow> userdata \<Rightarrow> message \<Rightarrow> world \<Rightarrow> pyexn option \<times> world" where
  "on_message_callback env userdata message w =
     (case utf8_decode env (payload message) of
        None \<Rightarrow> (None, w @ [log_decode_failed])
      | Some payload_str \<Rightarrow>
          (let w1 = w @ [log_message_received] in
           case json_loads env payload_str of
             None \<Rightarrow> (None, w1 @ [log_decode_failed])
           | Some event \<Rightarrow>
               handle_vehicle_message env (mqtt_client userdata) (firehose_client userdata)
                 event w1))"

text \<open>
  The subscription: the SDK calls the callback once for each message it delivers, in
  arrival order. A callback that raised would end the delivery.
\<close>

fun deliver :: "pyenv \<Rightarrow> userdata \<Rightarrow> message list \<Rightarrow> world \<Rightarrow> pyexn option \<times> world" where
  "deliver env userdata [] w = (None, w)"
| "deliver env userdata (m # ms) w =
     (case on_message_callback env userdata m w of
        (Some e, w') \<Rightarrow> (Some e, w')
      | (None, w') \<Rightarrow> deliver env userdata ms w')"

text \<open>
  \<open>main\<close> of main-mqtt.py from the point where \<open>configure_mqtt_client\<close> has returned the
  connected client, for the messages the subscription then delivers.
\<close>

definition main_mqtt :: "pyenv \<Rightarrow> mqtt \<Rightarrow> message list \<Rightarrow> world \<Rightarrow> pyexn option \<times> world" where
  "main_mqtt env client msgs w =
     (let (fh, w1) = configure_firehose_client w;
          userdata = \<lparr>mqtt_client = client, firehose_client = fh\<rparr>;
          w2 = w1 @ [Log INFO ''Subscribing to topic: %s'',
                     Log INFO ''Subscription established. Waiting for messages...'']
      in deliver env userdata msgs w2)"

section \<open>The fleet publishers\<close>

text \<open>
  The files the publishers look at: \<open>fs path\<close> is \<open>None\<close> when \<open>os.path.exists(path)\<close> is
  false, and otherwise holds what \<open>pd.read_csv(path)\<close> does: it raises, or it returns the
  rows of the file, in file order, each as the dict \<open>row.to_dict()\<close> gives.
\<close>

type_synonym filesystem = "string \<Rightarrow> (pyexn + pyval list) option"

fun string_of_nat :: "nat \<Rightarrow> string" where
  "string_of_nat n =
     (if n < 10 then [''0123456789'' ! n]
      else string_of_nat (n div 10) @ [''0123456789'' ! (n mod 10)])"

declare string_of_nat.simps [simp del]

definition VEHICLE_DATA_DIR :: string where
  "VEHICLE_DATA_DIR = ''vehicle-data''"

text \<open>\<open>os.path.join(VEHICLE_DATA_DIR, "vehicle{0}.csv").format(i)\<close>, the same path in both scripts.\<close>

definition data_path_template :: "nat \<Rightarrow> string" where
  "data_path_template i = VEHICLE_DATA_DIR @ ''/vehicle'' @ string_of_nat i @ ''.csv''"

subsection \<open>The HTTPS publisher (lab4_emulator_client.py)\<close>

definition TOPIC :: string where
  "TOPIC = ''vehicle/emission/data''"

definition CAR_ID_START :: nat where
  "CAR_ID_START = 1"

definition CAR_ID_END :: nat where
  "CAR_ID_END = 11"

text \<open>\<open>iot_data.publish(topic=.., qos=.., payload=..)\<close> of boto3.\<close>

type_synonym iot_data = "world \<Rightarrow> string \<Rightarrow> nat \<Rightarrow> string \<Rightarrow> pyexn option"

text \<open>The \<open>for index, row in df.iterrows()\<close> loop of \<open>publish_car_data\<close>.\<close>

fun publish_car_rows ::
  "pyenv \<Rightarrow> iot_data \<Rightarrow> string \<Rightarrow> pyval list \<Rightarrow> world \<Rightarrow> pyexn option \<times> world" where
  "publish_car_rows env iot device_id [] w = (None, w)"
| "publish_car_rows env iot device_id (row # rows) w =
     (let payload = VDict [(''device_id'', VStr device_id), (''data'', row)];
          payload_str = json_dumps env payload;
          w1 = w @ [Print (''[PUBLISH] '' @ device_id @ '' '' @ [CHR 0xE2, CHR 0x86, CHR 0x92]
                            @ '' '' @ TOPIC @ '': '' @ payload_str)];
          w2 = w1 @ [IotPublish TOPIC 0 payload_str]
      in case iot w1 TOPIC 0 payload_str of
           Some e \<Rightarrow> (Some e, w2)
         | None \<Rightarrow> publish_car_rows env iot device_id rows (w2 @ [Sleep (fl (2 / 10))]))"

definition publish_car_data ::
  "pyenv \<Rightarrow> filesystem \<Rightarrow> iot_data \<Rightarrow> nat \<Rightarrow> world \<Rightarrow> pyexn option \<times> world" where
  "publish_car_data env fs iot car_id w =
     (let device_id = ''lab4-car-'' @ string_of_nat car_id;
          csv_path = data_path_template car_id
      in case fs csv_path of
           None \<Rightarrow>
             (None, w @ [Print (''[WARN] CSV not found for '' @ device_id @ '': '' @ csv_path)])
         | Some (Inl e) \<Rightarrow> (Some e, w)
         | Some (Inr df) \<Rightarrow>
             publish_car_rows env iot device_id df
               (w @ [Print (''[INFO] Publishing data for '' @ device_id @ '' from '' @ csv_path)]))"

text \<open>The loop \<open>for car_id in range(CAR_ID_START, CAR_ID_END)\<close> of the command \<open>s\<close>.\<close>

fun publish_cars ::
  "pyenv \<Rightarrow> filesystem \<Rightarrow> iot_data \<Rightarrow> nat list \<Rightarrow> world \<Rightarrow> pyexn option \<times> world" where
  "publish_cars env fs iot [] w = (None, w)"
| "publish_cars env fs iot (car_id # car_ids) w =
     (case publish_car_data env fs iot car_id w of
        (Some e, w') \<Rightarrow> (Some e, w')
      | (None, w') \<Rightarrow> publish_cars env fs iot car_ids w')"

text \<open>
  The command loop of \<open>main\<close>. Its input is the list of the commands typed, each as
  \<open>input(..).strip().lower()\<close> returns it; at the end of the input, \<open>input\<close> raises \<open>EOFError\<close>.
\<close>

fun main_https ::
  "pyenv \<Rightarrow> filesystem \<Rightarrow> iot_data \<Rightarrow> string list \<Rightarrow> world \<Rightarrow> pyexn option \<times> world" where
  "main_https env fs iot [] w =
     (Some EOFError, w @ [Print ''Press 's' to send data, 'd' to exit: ''])"
| "main_https env fs iot (cmd # cmds) w =
     (let w0 = w @ [Print ''Press 's' to send data, 'd' to exit: ''] in
      if cmd = ''s'' then
        (case publish_cars env fs iot [CAR_ID_START ..< CAR_ID_END] w0 of
           (Some e, w') \<Rightarrow> (Some e, w')
         | (None, w') \<Rightarrow>
             main_https env fs iot cmds
               (w' @ [Print ''[INFO] Finished sending for all cars.'', Sleep (Finite 1)]))
      else if cmd = ''d'' then (None, w0 @ [Print ''Exiting.''])
      else main_https env fs iot cmds
             (w0 @ [Print ''Invalid input, use 's' or 'd'.'', Sleep (Finite 1)]))"

subsection \<open>The MQTT publisher (vehicle-data/lab4_emulator_client.py)\<close>

definition device_st :: nat where
  "device_st = 1"

definition device_end :: nat where
  "device_end = 11"

definition certificate_formatter :: "nat \<Rightarrow> string" where
  "certificate_formatter i = ''car_certs/lab4-car-'' @ string_of_nat i @ ''/certificate.pem.crt''"

definition key_formatter :: "nat \<Rightarrow> string" where
  "key_formatter i = ''car_certs/lab4-car-'' @ string_of_nat i @ ''/private.pem.key''"

text \<open>
  The calls into \<open>AWSIoTMQTTClient\<close>, each for the client id of the device that makes it:
  \<open>connect()\<close>, \<open>publishAsync(topic, payload, qos, ackCallback=..)\<close> and \<open>disconnect()\<close>.
\<close>

record awsiot =
  sdk_connect :: "world \<Rightarrow> string \<Rightarrow> pyexn option"
  sdk_publishAsync :: "world \<Rightarrow> string \<Rightarrow> string \<Rightarrow> string \<Rightarrow> nat \<Rightarrow> pyexn option"
  sdk_disconnect :: "world \<Rightarrow> string \<Rightarrow> pyexn option"

record MQTTClient =
  numeric_id :: nat
  device_id :: string
  state :: nat

definition MQTTClient_init :: "nat \<Rightarrow> MQTTClient" where
  "MQTTClient_init i =
     \<lparr>numeric_id = i, device_id = ''lab4-car-'' @ string_of_nat i, state = 0\<rparr>"

text \<open>The \<open>for index, row in df.iterrows()\<close> loop of \<open>MQTTClient.publish\<close>.\<close>

fun MQTTClient_publish_rows ::
  "pyenv \<Rightarrow> awsiot \<Rightarrow> MQTTClient \<Rightarrow> string \<Rightarrow> pyval list \<Rightarrow> world \<Rightarrow> pyexn option \<times> world"
  where
  "MQTTClient_publish_rows env sdk self tpc [] w = (None, w)"
| "MQTTClient_publish_rows env sdk self tpc (row # rows) w =
     (let payload = json_dumps env row;
          w1 = w @ [Print (''Publishing from '' @ device_id self @ '': '' @ payload)];
          w2 = w1 @ [PublishAsync (device_id self) tpc payload 0]
      in case sdk_publishAsync sdk w1 (device_id self) tpc payload 0 of
           Some e \<Rightarrow> (Some e, w2)
         | None \<Rightarrow> MQTTClient_publish_rows env sdk self tpc rows (w2 @ [Sleep (fl (2 / 10))]))"

definition MQTTClient_publish ::
  "pyenv \<Rightarrow> filesystem \<Rightarrow> awsiot \<Rightarrow> MQTTClient \<Rightarrow> string \<Rightarrow> world \<Rightarrow> pyexn option \<times> world"
  where
  "MQTTClient_publish env fs sdk self tpc w =
     (let csv_path = data_path_template (numeric_id self)
      in case fs csv_path of
           None \<Rightarrow> (Some FileNotFoundError, w)
         | Some (Inl e) \<Rightarrow> (Some e, w)
         | Some (Inr df) \<Rightarrow> MQTTClient_publish_rows env sdk self tpc df w)"

text \<open>The loop \<open>for c in clients: c.publish()\<close> of the command \<open>s\<close>, with the default topic.\<close>

fun publish_clients ::
  "pyenv \<Rightarrow> filesystem \<Rightarrow> awsiot \<Rightarrow> MQTTClient list \<Rightarrow> world \<Rightarrow> pyexn option \<times> world" where
  "publish_clients env fs sdk [] w = (None, w)"
| "publish_clients env fs sdk (c # cs) w =
     (case MQTTClient_publish env fs sdk c ''vehicle/emission/data'' w of
        (Some e, w') \<Rightarrow> (Some e, w')
      | (None, w') \<Rightarrow> publish_clients env fs sdk cs w')"

text \<open>The loop \<open>for c in clients: c.client.disconnect()\<close> of the command \<open>d\<close>.\<close>

fun disconnect_clients :: "awsiot \<Rightarrow> MQTTClient list \<Rightarrow> world \<Rightarrow> pyexn option \<times> world" where
  "disconnect_clients sdk [] w = (None, w)"
| "disconnect_clients sdk (c # cs) w =
     (case sdk_disconnect sdk w (device_id c) of
        Some e \<Rightarrow> (Some e, w @ [Disconnect (device_id c)])
      | None \<Rightarrow> disconnect_clients sdk cs (w @ [Disconnect (device_id c)]))"

text \<open>The start-up loop that loads the CSV files (the list it builds is not used afterwards).\<close>

fun load_vehicle_data :: "filesystem \<Rightarrow> nat list \<Rightarrow> world \<Rightarrow> pyexn option \<times> world" where
  "load_vehicle_data fs [] w = (None, w)"
| "load_vehicle_data fs (i # ids) w =
     (case fs (data_path_template i) of
        None \<Rightarrow>
          load_vehicle_data fs ids
            (w @ [Print (''WARNING: '' @ data_path_template i @ '' not found!'')])
      | Some (Inl e) \<Rightarrow> (Some e, w)
      | Some (Inr a) \<Rightarrow> load_vehicle_data fs ids w)"

text \<open>The start-up loop that creates and connects one client for each device with a certificate and a key.\<close>

fun init_clients ::
  "filesystem \<Rightarrow> awsiot \<Rightarrow> nat list \<Rightarrow> MQTTClient list \<Rightarrow> world
     \<Rightarrow> (pyexn + MQTTClient list) \<times> world" where
  "init_clients fs sdk [] clients w = (Inr clients, w)"
| "init_clients fs sdk (i # ids) clients w =
     (if \<not> (fs (certificate_formatter i) \<noteq> None \<and> fs (key_formatter i) \<noteq> None) then
        init_clients fs sdk ids clients
          (w @ [Print (''Skipping '' @ string_of_nat i @ '' (lab4-car-'' @ string_of_nat i
                       @ '') '' @ [CHR 0xE2, CHR 0x80, CHR 0x94] @ '' missing cert or key.''
                       @ newline @ ''  cert='' @ certificate_formatter i
                       @ newline @ ''  key ='' @ key_formatter i)])
      else
        (let client = MQTTClient_init i;
             w1 = w @ [Print (device_id client @ '': connecting...'')];
             w2 = w1 @ [Connect (device_id client)]
         in case sdk_connect sdk w1 (device_id client) of
              Some e \<Rightarrow> (Inl e, w2)
            | None \<Rightarrow>
                init_clients fs sdk ids (clients @ [client])
                  (w2 @ [Print (device_id client @ '': connected.'')])))"

text \<open>
  The \<open>while True\<close> loop of the script. Its input is the list of the lines typed, each as
  \<open>input().strip()\<close> returns it; at the end of the input, \<open>input\<close> raises \<open>EOFError\<close>.
\<close>

fun command_loop ::
  "pyenv \<Rightarrow> filesystem \<Rightarrow> awsiot \<Rightarrow> MQTTClient list \<Rightarrow> string list \<Rightarrow> world
     \<Rightarrow> pyexn option \<times> world" where
  "command_loop env fs sdk clients [] w =
     (Some EOFError, w @ [Print ''Press 's' to send data or 'd' to disconnect:''])"
| "command_loop env fs sdk clients (x # xs) w =
     (let w0 = w @ [Print ''Press 's' to send data or 'd' to disconnect:''] in
      if x = ''s'' then
        (case publish_clients env fs sdk clients w0 of
           (Some e, w') \<Rightarrow> (Some e, w')
         | (None, w') \<Rightarrow> command_loop env fs sdk clients xs (w' @ [Sleep (Finite 2)]))
      else if x = ''d'' then
        (case disconnect_clients sdk clients w0 of
           (Some e, w') \<Rightarrow> (Some e, w')
         | (None, w') \<Rightarrow> (None, w' @ [Print ''All devices disconnected.'']))
      else command_loop env fs sdk clients xs
             (w0 @ [Print ''Invalid key pressed.'', Sleep (Finite 2)]))"

text \<open>How a script ends: it runs to its end, an exception leaves it, or it exits with a status.\<close>

datatype ending = Finished | Uncaught pyexn | SystemExit nat

definition lab4_emulator_client ::
  "pyenv \<Rightarrow> filesystem \<Rightarrow> awsiot \<Rightarrow> string list \<Rightarrow> world \<Rightarrow> ending \<times> world" where
  "lab4_emulator_client env fs sdk inputs w =
     (case load_vehicle_data fs [device_st ..< device_end] (w @ [Print ''Loading vehicle data...''])
      of
        (Some e, w1) \<Rightarrow> (Uncaught e, w1)
      | (None, w1) \<Rightarrow>
          (case init_clients fs sdk [device_st ..< device_end] []
                  (w1 @ [Print ''Initializing MQTTClients...'']) of
             (Inl e, w2) \<Rightarrow> (Uncaught e, w2)
           | (Inr clients, w2) \<Rightarrow>
               if clients = [] then
                 (SystemExit 1,
                  w2 @ [Print (''No clients initialized '' @ [CHR 0xE2, CHR 0x80, CHR 0x94]
                              @ '' check cert paths and indexes.'')])
               else
                 (case command_loop env fs sdk clients inputs w2 of
                    (Some e, w3) \<Rightarrow> (Uncaught e, w3)
                  | (None, w3) \<Rightarrow> (Finished, w3))))"

section \<open>Inputs to evaluate the model on\<close>

text \<open>
  An environment whose \<open>float\<close> reads the strings of ASCII decimal digits and nothing else.
  The texts its serialiser and formatter give are fixed ones: no property evaluated with it
  depends on them.
\<close>

definition sample_env :: pyenv where
  "sample_env =
     \<lparr>str_to_float = plain_decimal,
      json_dumps = (\<lambda>v. ''{}''),
      json_loads = (\<lambda>s. if s = ''{}'' then Some (VDict []) else None),
      utf8_decode = Some,
      format_value = (\<lambda>v. ''?'')\<rparr>"

text \<open>The event of the end-to-end scenario.\<close>

definition car3_event :: pyval where
  "car3_event =
     VDict [(''vehicle_id'', VStr ''car-3''), (''vehicle_CO2'', VStr ''9000''),
            (''vehicle_CO'', VStr ''50''), (''vehicle_NOx'', VStr ''2'')]"

definition car3_record :: pyval where
  "car3_record =
     VDict [(''vehicle_id'', VStr ''car-3''),
            (''timestep_time'', VNone),
            (''vehicle_CO'', VFloat (Finite 50)),
            (''vehicle_CO2'', VFloat (Finite 9000)),
            (''vehicle_NOx'', VFloat (Finite 2)),
            (''vehicle_PMx'', VFloat (Finite 0)),
            (''vehicle_speed'', VFloat (Finite 0)),
            (''co2_status'', VStr ''HIGH''),
            (''co_status'', VStr ''OK''),
            (''nox_status'', VStr ''OK''),
            (''emission_score'', VFloat (Finite (43 / 2)))]"

text \<open>SDK clients that accept every call, and ones that refuse every call.\<close>

definition mqtt_up :: mqtt where
  "mqtt_up = (\<lambda>w t p q. None)"

definition mqtt_down :: mqtt where
  "mqtt_down = (\<lambda>w t p q. Some (LibraryError ''publishError''))"

definition firehose_up :: firehose where
  "firehose_up = (\<lambda>w n d. None)"

definition firehose_down :: firehose where
  "firehose_down = (\<lambda>w n d. Some (LibraryError ''ServiceUnavailableException''))"

definition sdk_up :: awsiot where
  "sdk_up =
     \<lparr>sdk_connect = (\<lambda>w d. None), sdk_publishAsync = (\<lambda>w d t p q. None),
      sdk_disconnect = (\<lambda>w d. None)\<rparr>"

definition iot_up :: iot_data where
  "iot_up = (\<lambda>w t q p. None)"

text \<open>Two one-field rows, and a file system that holds a dataset for car 2 only.\<close>

definition row_a :: pyval where
  "row_a = VDict [(''vehicle_id'', VStr ''veh0'')]"

definition row_b :: pyval where
  "row_b = VDict [(''vehicle_id'', VStr ''veh1'')]"

definition fs_car2_only :: filesystem where
  "fs_car2_only =
     (\<lambda>path. if path = ''vehicle-data/vehicle2.csv'' then Some (Inr [row_a, row_b]) else None)"

text \<open>A message that is not JSON, and the callback's \<open>userdata\<close>.\<close>

definition bad_message :: message where
  "bad_message = \<lparr>payload = ''not json'', topic = ''vehicle/emission/data''\<rparr>"

definition sample_userdata :: userdata where
  "sample_userdata = \<lparr>mqtt_client = mqtt_up, firehose_client = None\<rparr>"

section \<open>Facts about floats\<close>

lemma fmul_commute: "fmul a b = fmul b a"
  by (cases a; cases b) (simp_all add: mult.commute)

lemma fge_refl: "a \<noteq> NaN \<Longrightarrow> fge a a"
  by (cases a) simp_all

lemma fge_NaN_right: "\<not> fge a NaN"
  by (cases a) simp_all

text \<open>Evaluation of the rounding function on numerals.\<close>

lemma bit_length_numeral [simp]:
  "bit_length 0 = 0"
  "bit_length (Suc 0) = 1"
  "bit_length (numeral k) = 1 + bit_length (numeral k div 2)"
  by (simp_all add: bit_length.simps [of 0] bit_length.simps [of "Suc 0"]
      bit_length.simps [of "numeral k"])

lemmas fl_eval = fl_def round_at_def pack_def round_half_even_def ilog2_def pow2_def

text \<open>The literals \<open>0.3\<close> and \<open>0.0005\<close> are not the rationals they spell.\<close>

lemma literal_0_3: "fl (3 / 10) = Finite (5404319552844595 / 18014398509481984)"
  by (simp add: fl_eval)

lemma literal_0_0005: "fl (5 / 10000) = Finite (1152921504606847 / 2305843009213693952)"
  by (simp add: fl_eval)

lemma car3_co: "fmul (Finite 50) (fl (3 / 10)) = Finite 15"
  unfolding literal_0_3 by (simp add: fl_eval)

lemma car3_co2: "fmul (Finite 9000) (fl (5 / 10000)) = Finite (9 / 2)"
  unfolding literal_0_0005 by (simp add: fl_eval)

lemma car3_nox: "fmul (Finite 2) (Finite 1) = Finite 2"
  by (simp add: fl_eval)

lemma car3_pmx: "fmul (Finite 0) (Finite 5) = Finite 0"
  by (simp add: fl_eval)

lemma car3_sum1: "fadd (Finite 15) (Finite (9 / 2)) = Finite (39 / 2)"
  by (simp add: fl_eval)

lemma car3_sum2: "fadd (Finite (39 / 2)) (Finite 2) = Finite (43 / 2)"
  by (simp add: fl_eval)

lemma car3_sum3: "fadd (Finite (43 / 2)) (Finite 0) = Finite (43 / 2)"
  by (simp add: fl_eval)

lemma car3_score:
  "fadd (fadd (fadd (fmul (Finite 50) (fl (3 / 10))) (fmul (Finite 9000) (fl (5 / 10000))))
              (fmul (Finite 2) (Finite 1)))
        (fmul (Finite 0) (Finite 5)) = Finite (43 / 2)"
  by (simp only: car3_co car3_co2 car3_nox car3_pmx car3_sum1 car3_sum2 car3_sum3)

text \<open>\<open>2^1024\<close> is out of the range of the doubles.\<close>

lemma fl_overflow: "fl (2 ^ 1024) = PInf"
  by (simp add: fl_eval)

lemma float_of_int_overflow: "float_of_int (2 ^ 1024) = Inl OverflowError"
  unfolding float_of_int_def of_int_power of_int_numeral fl_overflow by simp

section \<open>The evaluator\<close>

lemma safe_float_absent: "safe_float env VNone = Inr (Finite 0)"
  by (simp add: safe_float_def)

lemma safe_float_not_a_number:
  "str_to_float env s = None \<Longrightarrow> safe_float env (VStr s) = Inr (Finite 0)"
  by (simp add: safe_float_def)

lemma safe_float_raises:
  "safe_float env v = Inl e \<Longrightarrow> e = OverflowError \<and> (\<exists>i. v = VInt i)"
  by (cases v) (auto simp add: safe_float_def float_of_int_def split: option.splits pyfloat.splits if_splits)

lemma safe_float_overflow: "safe_float env (VInt (2 ^ 1024)) = Inl OverflowError"
  unfolding safe_float_def py_float.simps float_of_int_overflow by simp

lemma process_co_raises:
  "safe_float env v = Inl e \<Longrightarrow> process env self (VDict [(''vehicle_CO'', v)]) = Inl e"
  by (simp add: process_def bind_exn_def)

lemma process_not_dict:
  "\<forall>kvs. event \<noteq> VDict kvs \<Longrightarrow> process env self event = Inl AttributeError"
  by (cases event) (simp_all add: process_def bind_exn_def)

lemma process_Inr_iff:
  "process env self event = Inr result \<longleftrightarrow>
     (\<exists>kvs co co2 nox pmx speed.
        event = VDict kvs \<and>
        coerced env event ''vehicle_CO'' = Inr co \<and>
        coerced env event ''vehicle_CO2'' = Inr co2 \<and>
        coerced env event ''vehicle_NOx'' = Inr nox \<and>
        coerced env event ''vehicle_PMx'' = Inr pmx \<and>
        coerced env event ''vehicle_speed'' = Inr speed \<and>
        result = VDict
          [(''vehicle_id'',
            py_or (case map_of kvs ''vehicle_id'' of None \<Rightarrow> VNone | Some v \<Rightarrow> v)
              (VStr ''unknown'')),
           (''timestep_time'', (case map_of kvs ''timestep_time'' of None \<Rightarrow> VNone | Some v \<Rightarrow> v)),
           (''vehicle_CO'', VFloat co),
           (''vehicle_CO2'', VFloat co2),
           (''vehicle_NOx'', VFloat nox),
           (''vehicle_PMx'', VFloat pmx),
           (''vehicle_speed'', VFloat speed),
           (''co2_status'', VStr (if fge co2 (co2_warn_threshold self) then ''HIGH'' else ''OK'')),
           (''co_status'', VStr (if fge co (co_warn_threshold self) then ''HIGH'' else ''OK'')),
           (''nox_status'', VStr (if fge nox (nox_warn_threshold self) then ''HIGH'' else ''OK'')),
           (''emission_score'',
            VFloat (fadd (fadd (fadd (fmul co (fl (3 / 10))) (fmul co2 (fl (5 / 10000))))
                               (fmul nox (Finite 1)))
                         (fmul pmx (Finite 5))))])"
  by (cases event)
    (auto simp add: process_def coerced_def bind_exn_def Let_def split: sum.splits)

lemma sample_str_to_float: "str_to_float sample_env = plain_decimal"
  by (simp add: sample_env_def)

lemma plain_decimal_9000: "plain_decimal ''9000'' = Some (Finite 9000)"
  by (simp add: plain_decimal_def digit_of_def fl_eval)

lemma plain_decimal_50: "plain_decimal ''50'' = Some (Finite 50)"
  by (simp add: plain_decimal_def digit_of_def fl_eval)

lemma plain_decimal_2: "plain_decimal ''2'' = Some (Finite 2)"
  by (simp add: plain_decimal_def digit_of_def fl_eval)

lemma car3_coerced:
  assumes "str_to_float env ''9000'' = Some (Finite 9000)"
    and "str_to_float env ''50'' = Some (Finite 50)"
    and "str_to_float env ''2'' = Some (Finite 2)"
  shows "coerced env car3_event ''vehicle_CO'' = Inr (Finite 50)"
    and "coerced env car3_event ''vehicle_CO2'' = Inr (Finite 9000)"
    and "coerced env car3_event ''vehicle_NOx'' = Inr (Finite 2)"
    and "coerced env car3_event ''vehicle_PMx'' = Inr (Finite 0)"
    and "coerced env car3_event ''vehicle_speed'' = Inr (Finite 0)"
  using assms by (simp_all add: coerced_def car3_event_def bind_exn_def safe_float_def)

lemma car3_process:
  assumes "str_to_float env ''9000'' = Some (Finite 9000)"
    and "str_to_float env ''50'' = Some (Finite 50)"
    and "str_to_float env ''2'' = Some (Finite 2)"
  shows "process env EmissionProcessor_init car3_event = Inr car3_record"
proof -
  have "\<exists>kvs. car3_event = VDict kvs \<and> car3_record = VDict
          [(''vehicle_id'',
            py_or (case map_of kvs ''vehicle_id'' of None \<Rightarrow> VNone | Some v \<Rightarrow> v)
              (VStr ''unknown'')),
           (''timestep_time'', (case map_of kvs ''timestep_time'' of None \<Rightarrow> VNone | Some v \<Rightarrow> v)),
           (''vehicle_CO'', VFloat (Finite 50)),
           (''vehicle_CO2'', VFloat (Finite 9000)),
           (''vehicle_NOx'', VFloat (Finite 2)),
           (''vehicle_PMx'', VFloat (Finite 0)),
           (''vehicle_speed'', VFloat (Finite 0)),
           (''co2_status'', VStr (if fge (Finite 9000) (co2_warn_threshold EmissionProcessor_init) then ''HIGH'' else ''OK'')),
           (''co_status'', VStr (if fge (Finite 50) (co_warn_threshold EmissionProcessor_init) then ''HIGH'' else ''OK'')),
           (''nox_status'', VStr (if fge (Finite 2) (nox_warn_threshold EmissionProcessor_init) then ''HIGH'' else ''OK'')),
           (''emission_score'',
            VFloat (fadd (fadd (fadd (fmul (Finite 50) (fl (3 / 10))) (fmul (Finite 9000) (fl (5 / 10000))))
                               (fmul (Finite 2) (Finite 1)))
                         (fmul (Finite 0) (Finite 5))))]"
    unfolding car3_score
    by (simp add: car3_event_def car3_record_def py_or_def EmissionProcessor_init_def)
  with car3_coerced [OF assms] show ?thesis
    unfolding process_Inr_iff by blast
qed

lemma sample_car3: "process sample_env EmissionProcessor_init car3_event = Inr car3_record"
  by (rule car3_process)
    (simp_all add: sample_str_to_float plain_decimal_9000 plain_decimal_50 plain_decimal_2)

text \<open>The record the evaluator returns for a dict event whose five readings coerce.\<close>

lemma process_returns:
  assumes "event = VDict kvs"
    and "coerced env event ''vehicle_CO'' = Inr co"
    and "coerced env event ''vehicle_CO2'' = Inr co2"
    and "coerced env event ''vehicle_NOx'' = Inr nox"
    and "coerced env event ''vehicle_PMx'' = Inr pmx"
    and "coerced env event ''vehicle_speed'' = Inr speed"
  shows "process env self event = Inr (VDict
          [(''vehicle_id'',
            py_or (case map_of kvs ''vehicle_id'' of None \<Rightarrow> VNone | Some v \<Rightarrow> v)
              (VStr ''unknown'')),
           (''timestep_time'', (case map_of kvs ''timestep_time'' of None \<Rightarrow> VNone | Some v \<Rightarrow> v)),
           (''vehicle_CO'', VFloat co),
           (''vehicle_CO2'', VFloat co2),
           (''vehicle_NOx'', VFloat nox),
           (''vehicle_PMx'', VFloat pmx),
           (''vehicle_speed'', VFloat speed),
           (''co2_status'', VStr (if fge co2 (co2_warn_threshold self) then ''HIGH'' else ''OK'')),
           (''co_status'', VStr (if fge co (co_warn_threshold self) then ''HIGH'' else ''OK'')),
           (''nox_status'', VStr (if fge nox (nox_warn_threshold self) then ''HIGH'' else ''OK'')),
           (''emission_score'',
            VFloat (fadd (fadd (fadd (fmul co (fl (3 / 10))) (fmul co2 (fl (5 / 10000))))
                               (fmul nox (Finite 1)))
                         (fmul pmx (Finite 5))))])"
  using assms by (simp add: process_def coerced_def bind_exn_def Let_def)

text \<open>
  A reading coerces unless it is an integer out of the range of the doubles: absent
  fields, \<open>None\<close>, Booleans, floats, strings, lists and dicts all give a float.
\<close>

lemma coerced_returns:
  assumes "\<forall>i. map_of kvs key \<noteq> Some (VInt i)"
  shows "\<exists>f. coerced env (VDict kvs) key = Inr f"
proof (cases "map_of kvs key")
  case None
  then show ?thesis
    by (simp add: coerced_def bind_exn_def safe_float_def)
next
  case (Some v)
  with assms have "\<forall>i. v \<noteq> VInt i"
    by simp
  then have "\<exists>f. safe_float env v = Inr f"
    by (cases v) (simp_all add: safe_float_def split: option.splits)
  with Some show ?thesis
    by (simp add: coerced_def bind_exn_def)
qed

lemma fge_self: "fge a a \<longleftrightarrow> a \<noteq> NaN"
  by (cases a) simp_all

lemma boundary_event_coerced:
  "coerced env (VDict [(''vehicle_CO2'', VFloat (Finite 8000))]) ''vehicle_CO'' = Inr (Finite 0)"
  "coerced env (VDict [(''vehicle_CO2'', VFloat (Finite 8000))]) ''vehicle_CO2'' = Inr (Finite 8000)"
  "coerced env (VDict [(''vehicle_CO2'', VFloat (Finite 8000))]) ''vehicle_NOx'' = Inr (Finite 0)"
  "coerced env (VDict [(''vehicle_CO2'', VFloat (Finite 8000))]) ''vehicle_PMx'' = Inr (Finite 0)"
  "coerced env (VDict [(''vehicle_CO2'', VFloat (Finite 8000))]) ''vehicle_speed'' = Inr (Finite 0)"
  by (simp_all add: coerced_def bind_exn_def safe_float_def)

text \<open>
  C1. For every dict event whose five readings coerce, the evaluator returns a record, and
  in it each status flag is \<open>HIGH\<close> exactly when the coerced reading is at least the
  threshold (Python's \<open>>=\<close>), and \<open>OK\<close> otherwise; a reading equal to a threshold (that is
  not a NaN) gives \<open>HIGH\<close>. The readings of a dict event coerce as soon as none of the five
  fields is an integer. Conversely a record is returned for such events only, with these
  flags. The default thresholds are 8000.0 for CO2, 200.0 for CO and 5.0 for NOx.
\<close>

theorem process_status_flags:
  "(event = VDict kvs \<and>
    coerced env event ''vehicle_CO'' = Inr co \<and>
    coerced env event ''vehicle_CO2'' = Inr co2 \<and>
    coerced env event ''vehicle_NOx'' = Inr nox \<and>
    coerced env event ''vehicle_PMx'' = Inr pmx \<and>
    coerced env event ''vehicle_speed'' = Inr speed \<longrightarrow>
      (\<exists>r. process env self event = Inr r \<and>
         py_get r ''co2_status'' VNone =
           Inr (VStr (if fge co2 (co2_warn_threshold self) then ''HIGH'' else ''OK'')) \<and>
         py_get r ''co_status'' VNone =
           Inr (VStr (if fge co (co_warn_threshold self) then ''HIGH'' else ''OK'')) \<and>
         py_get r ''nox_status'' VNone =
           Inr (VStr (if fge nox (nox_warn_threshold self) then ''HIGH'' else ''OK'')) \<and>
         (co2 = co2_warn_threshold self \<and> co2 \<noteq> NaN \<longrightarrow>
            py_get r ''co2_status'' VNone = Inr (VStr ''HIGH'')) \<and>
         (co = co_warn_threshold self \<and> co \<noteq> NaN \<longrightarrow>
            py_get r ''co_status'' VNone = Inr (VStr ''HIGH'')) \<and>
         (nox = nox_warn_threshold self \<and> nox \<noteq> NaN \<longrightarrow>
            py_get r ''nox_status'' VNone = Inr (VStr ''HIGH'')))) \<and>
   ((\<forall>i. map_of kvs ''vehicle_CO'' \<noteq> Some (VInt i)) \<and>
    (\<forall>i. map_of kvs ''vehicle_CO2'' \<noteq> Some (VInt i)) \<and>
    (\<forall>i. map_of kvs ''vehicle_NOx'' \<noteq> Some (VInt i)) \<and>
    (\<forall>i. map_of kvs ''vehicle_PMx'' \<noteq> Some (VInt i)) \<and>
    (\<forall>i. map_of kvs ''vehicle_speed'' \<noteq> Some (VInt i)) \<longrightarrow>
      (\<exists>r. process env self (VDict kvs) = Inr r)) \<and>
   (process env self event = Inr result \<longrightarrow>
      (\<exists>co co2 nox.
         coerced env event ''vehicle_CO'' = Inr co \<and>
         coerced env event ''vehicle_CO2'' = Inr co2 \<and>
         coerced env event ''vehicle_NOx'' = Inr nox \<and>
         py_get result ''co2_status'' VNone =
           Inr (VStr (if fge co2 (co2_warn_threshold self) then ''HIGH'' else ''OK'')) \<and>
         py_get result ''co_status'' VNone =
           Inr (VStr (if fge co (co_warn_threshold self) then ''HIGH'' else ''OK'')) \<and>
         py_get result ''nox_status'' VNone =
           Inr (VStr (if fge nox (nox_warn_threshold self) then ''HIGH'' else ''OK'')) \<and>
         (co2 = co2_warn_threshold self \<and> co2 \<noteq> NaN \<longrightarrow>
            py_get result ''co2_status'' VNone = Inr (VStr ''HIGH'')) \<and>
         (co = co_warn_threshold self \<and> co \<noteq> NaN \<longrightarrow>
            py_get result ''co_status'' VNone = Inr (VStr ''HIGH'')) \<and>
         (nox = nox_warn_threshold self \<and> nox \<noteq> NaN \<longrightarrow>
            py_get result ''nox_status'' VNone = Inr (VStr ''HIGH'')))) \<and>
   co2_warn_threshold EmissionProcessor_init = Finite 8000 \<and>
   co_warn_threshold EmissionProcessor_init = Finite 200 \<and>
   nox_warn_threshold EmissionProcessor_init = Finite 5"
proof (intro conjI impI)
  assume a: "event = VDict kvs \<and>
    coerced env event ''vehicle_CO'' = Inr co \<and>
    coerced env event ''vehicle_CO2'' = Inr co2 \<and>
    coerced env event ''vehicle_NOx'' = Inr nox \<and>
    coerced env event ''vehicle_PMx'' = Inr pmx \<and>
    coerced env event ''vehicle_speed'' = Inr speed"
  then have e: "event = VDict kvs"
    and c: "coerced env event ''vehicle_CO'' = Inr co"
      "coerced env event ''vehicle_CO2'' = Inr co2"
      "coerced env event ''vehicle_NOx'' = Inr nox"
      "coerced env event ''vehicle_PMx'' = Inr pmx"
      "coerced env event ''vehicle_speed'' = Inr speed"
    by blast+
  show "\<exists>r. process env self event = Inr r \<and>
         py_get r ''co2_status'' VNone =
           Inr (VStr (if fge co2 (co2_warn_threshold self) then ''HIGH'' else ''OK'')) \<and>
         py_get r ''co_status'' VNone =
           Inr (VStr (if fge co (co_warn_threshold self) then ''HIGH'' else ''OK'')) \<and>
         py_get r ''nox_status'' VNone =
           Inr (VStr (if fge nox (nox_warn_threshold self) then ''HIGH'' else ''OK'')) \<and>
         (co2 = co2_warn_threshold self \<and> co2 \<noteq> NaN \<longrightarrow>
            py_get r ''co2_status'' VNone = Inr (VStr ''HIGH'')) \<and>
         (co = co_warn_threshold self \<and> co \<noteq> NaN \<longrightarrow>
            py_get r ''co_status'' VNone = Inr (VStr ''HIGH'')) \<and>
         (nox = nox_warn_threshold self \<and> nox \<noteq> NaN \<longrightarrow>
            py_get r ''nox_status'' VNone = Inr (VStr ''HIGH''))"
    unfolding process_returns [OF e c]
    by (auto simp add: fge_self)
next
  assume n: "(\<forall>i. map_of kvs ''vehicle_CO'' \<noteq> Some (VInt i)) \<and>
    (\<forall>i. map_of kvs ''vehicle_CO2'' \<noteq> Some (VInt i)) \<and>
    (\<forall>i. map_of kvs ''vehicle_NOx'' \<noteq> Some (VInt i)) \<and>
    (\<forall>i. map_of kvs ''vehicle_PMx'' \<noteq> Some (VInt i)) \<and>
    (\<forall>i. map_of kvs ''vehicle_speed'' \<noteq> Some (VInt i))"
  from coerced_returns [OF n [THEN conjunct1], where env = env]
  obtain co where 1: "coerced env (VDict kvs) ''vehicle_CO'' = Inr co"
    by blast
  from coerced_returns [OF n [THEN conjunct2, THEN conjunct1], where env = env]
  obtain co2 where 2: "coerced env (VDict kvs) ''vehicle_CO2'' = Inr co2"
    by blast
  from coerced_returns [OF n [THEN conjunct2, THEN conjunct2, THEN conjunct1], where env = env]
  obtain nox where 3: "coerced env (VDict kvs) ''vehicle_NOx'' = Inr nox"
    by blast
  from coerced_returns [OF n [THEN conjunct2, THEN conjunct2, THEN conjunct2, THEN conjunct1], where env = env]
  obtain pmx where 4: "coerced env (VDict kvs) ''vehicle_PMx'' = Inr pmx"
    by blast
  from coerced_returns [OF n [THEN conjunct2, THEN conjunct2, THEN conjunct2, THEN conjunct2], where env = env]
  obtain speed where 5: "coerced env (VDict kvs) ''vehicle_speed'' = Inr speed"
    by blast
  from process_returns [OF refl 1 2 3 4 5]
  show "\<exists>r. process env self (VDict kvs) = Inr r"
    by blast
next
  assume "process env self event = Inr result"
  then obtain kvs' co co2 nox pmx speed where
    c: "coerced env event ''vehicle_CO'' = Inr co"
       "coerced env event ''vehicle_CO2'' = Inr co2"
       "coerced env event ''vehicle_NOx'' = Inr nox"
    and r: "result = VDict
          [(''vehicle_id'',
            py_or (case map_of kvs' ''vehicle_id'' of None \<Rightarrow> VNone | Some v \<Rightarrow> v)
              (VStr ''unknown'')),
           (''timestep_time'', (case map_of kvs' ''timestep_time'' of None \<Rightarrow> VNone | Some v \<Rightarrow> v)),
           (''vehicle_CO'', VFloat co),
           (''vehicle_CO2'', VFloat co2),
           (''vehicle_NOx'', VFloat nox),
           (''vehicle_PMx'', VFloat pmx),
           (''vehicle_speed'', VFloat speed),
           (''co2_status'', VStr (if fge co2 (co2_warn_threshold self) then ''HIGH'' else ''OK'')),
           (''co_status'', VStr (if fge co (co_warn_threshold self) then ''HIGH'' else ''OK'')),
           (''nox_status'', VStr (if fge nox (nox_warn_threshold self) then ''HIGH'' else ''OK'')),
           (''emission_score'',
            VFloat (fadd (fadd (fadd (fmul co (fl (3 / 10))) (fmul co2 (fl (5 / 10000))))
                               (fmul nox (Finite 1)))
                         (fmul pmx (Finite 5))))]"
    unfolding process_Inr_iff by blast
  have "py_get result ''co2_status'' VNone =
          Inr (VStr (if fge co2 (co2_warn_threshold self) then ''HIGH'' else ''OK''))"
    and "py_get result ''co_status'' VNone =
          Inr (VStr (if fge co (co_warn_threshold self) then ''HIGH'' else ''OK''))"
    and "py_get result ''nox_status'' VNone =
          Inr (VStr (if fge nox (nox_warn_threshold self) then ''HIGH'' else ''OK''))"
    unfolding r by simp_all
  with c show "\<exists>co co2 nox.
         coerced env event ''vehicle_CO'' = Inr co \<and>
         coerced env event ''vehicle_CO2'' = Inr co2 \<and>
         coerced env event ''vehicle_NOx'' = Inr nox \<and>
         py_get result ''co2_status'' VNone =
           Inr (VStr (if fge co2 (co2_warn_threshold self) then ''HIGH'' else ''OK'')) \<and>
         py_get result ''co_status'' VNone =
           Inr (VStr (if fge co (co_warn_threshold self) then ''HIGH'' else ''OK'')) \<and>
         py_get result ''nox_status'' VNone =
           Inr (VStr (if fge nox (nox_warn_threshold self) then ''HIGH'' else ''OK'')) \<and>
         (co2 = co2_warn_threshold self \<and> co2 \<noteq> NaN \<longrightarrow>
            py_get result ''co2_status'' VNone = Inr (VStr ''HIGH'')) \<and>
         (co = co_warn_threshold self \<and> co \<noteq> NaN \<longrightarrow>
            py_get result ''co_status'' VNone = Inr (VStr ''HIGH'')) \<and>
         (nox = nox_warn_threshold self \<and> nox \<noteq> NaN \<longrightarrow>
            py_get result ''nox_status'' VNone = Inr (VStr ''HIGH''))"
    using fge_refl
    by (intro exI [of _ co] exI [of _ co2] exI [of _ nox]) auto
qed (simp_all add: EmissionProcessor_init_def)

text \<open>
  The event of the end-to-end scenario gives \<open>HIGH\<close>, \<open>OK\<close>, \<open>OK\<close>; a reading of exactly
  \<open>8000.0\<close> gives \<open>HIGH\<close>; an event with no field at all gives a record.
\<close>

theorem process_status_flags_witness:
  "car3_event = VDict [(''vehicle_id'', VStr ''car-3''), (''vehicle_CO2'', VStr ''9000''),
                       (''vehicle_CO'', VStr ''50''), (''vehicle_NOx'', VStr ''2'')] \<and>
   coerced sample_env car3_event ''vehicle_CO'' = Inr (Finite 50) \<and>
   coerced sample_env car3_event ''vehicle_CO2'' = Inr (Finite 9000) \<and>
   coerced sample_env car3_event ''vehicle_NOx'' = Inr (Finite 2) \<and>
   coerced sample_env car3_event ''vehicle_PMx'' = Inr (Finite 0) \<and>
   coerced sample_env car3_event ''vehicle_speed'' = Inr (Finite 0) \<and>
   (\<exists>r. process sample_env EmissionProcessor_init car3_event = Inr r \<and>
      py_get r ''co2_status'' VNone = Inr (VStr ''HIGH'') \<and>
      py_get r ''co_status'' VNone = Inr (VStr ''OK'') \<and>
      py_get r ''nox_status'' VNone = Inr (VStr ''OK'')) \<and>
   (\<exists>r. process sample_env EmissionProcessor_init
           (VDict [(''vehicle_CO2'', VFloat (Finite 8000))]) = Inr r \<and>
      py_get r ''co2_status'' VNone = Inr (VStr ''HIGH'')) \<and>
   (\<exists>r. process sample_env EmissionProcessor_init (VDict []) = Inr r) \<and>
   process sample_env EmissionProcessor_init car3_event = Inr car3_record \<and>
   (\<exists>co2. coerced sample_env car3_event ''vehicle_CO2'' = Inr co2 \<and>
      py_get car3_record ''co2_status'' VNone =
        Inr (VStr (if fge co2 (co2_warn_threshold EmissionProcessor_init)
                   then ''HIGH'' else ''OK'')))"
proof -
  have s: "str_to_float sample_env ''9000'' = Some (Finite 9000)"
    "str_to_float sample_env ''50'' = Some (Finite 50)"
    "str_to_float sample_env ''2'' = Some (Finite 2)"
    by (simp_all add: sample_str_to_float plain_decimal_9000 plain_decimal_50 plain_decimal_2)
  note c = car3_coerced [OF s]
  have e: "car3_event = VDict [(''vehicle_id'', VStr ''car-3''), (''vehicle_CO2'', VStr ''9000''),
                       (''vehicle_CO'', VStr ''50''), (''vehicle_NOx'', VStr ''2'')]"
    by (simp add: car3_event_def)
  have a: "car3_event = VDict [(''vehicle_id'', VStr ''car-3''), (''vehicle_CO2'', VStr ''9000''),
                       (''vehicle_CO'', VStr ''50''), (''vehicle_NOx'', VStr ''2'')] \<and>
    coerced sample_env car3_event ''vehicle_CO'' = Inr (Finite 50) \<and>
    coerced sample_env car3_event ''vehicle_CO2'' = Inr (Finite 9000) \<and>
    coerced sample_env car3_event ''vehicle_NOx'' = Inr (Finite 2) \<and>
    coerced sample_env car3_event ''vehicle_PMx'' = Inr (Finite 0) \<and>
    coerced sample_env car3_event ''vehicle_speed'' = Inr (Finite 0)"
    by (intro conjI e c)
  from process_status_flags
    [where env = sample_env and self = EmissionProcessor_init, THEN conjunct1, THEN mp, OF a]
  obtain r where r: "process sample_env EmissionProcessor_init car3_event = Inr r"
    "py_get r ''co2_status'' VNone =
       Inr (VStr (if fge (Finite 9000) (co2_warn_threshold EmissionProcessor_init)
                  then ''HIGH'' else ''OK''))"
    "py_get r ''co_status'' VNone =
       Inr (VStr (if fge (Finite 50) (co_warn_threshold EmissionProcessor_init)
                  then ''HIGH'' else ''OK''))"
    "py_get r ''nox_status'' VNone =
       Inr (VStr (if fge (Finite 2) (nox_warn_threshold EmissionProcessor_init)
                  then ''HIGH'' else ''OK''))"
    by (elim exE conjE)
  from r(2-4) have "py_get r ''co2_status'' VNone = Inr (VStr ''HIGH'')"
    "py_get r ''co_status'' VNone = Inr (VStr ''OK'')"
    "py_get r ''nox_status'' VNone = Inr (VStr ''OK'')"
    by (simp_all add: EmissionProcessor_init_def)
  with r(1) have 1: "\<exists>r. process sample_env EmissionProcessor_init car3_event = Inr r \<and>
      py_get r ''co2_status'' VNone = Inr (VStr ''HIGH'') \<and>
      py_get r ''co_status'' VNone = Inr (VStr ''OK'') \<and>
      py_get r ''nox_status'' VNone = Inr (VStr ''OK'')"
    by (intro exI [of _ r] conjI)
  have b: "VDict [(''vehicle_CO2'', VFloat (Finite 8000))] =
      VDict [(''vehicle_CO2'', VFloat (Finite 8000))] \<and>
    coerced sample_env (VDict [(''vehicle_CO2'', VFloat (Finite 8000))]) ''vehicle_CO'' =
      Inr (Finite 0) \<and>
    coerced sample_env (VDict [(''vehicle_CO2'', VFloat (Finite 8000))]) ''vehicle_CO2'' =
      Inr (Finite 8000) \<and>
    coerced sample_env (VDict [(''vehicle_CO2'', VFloat (Finite 8000))]) ''vehicle_NOx'' =
      Inr (Finite 0) \<and>
    coerced sample_env (VDict [(''vehicle_CO2'', VFloat (Finite 8000))]) ''vehicle_PMx'' =
      Inr (Finite 0) \<and>
    coerced sample_env (VDict [(''vehicle_CO2'', VFloat (Finite 8000))]) ''vehicle_speed'' =
      Inr (Finite 0)"
    by (intro conjI refl boundary_event_coerced)
  from process_status_flags
    [where env = sample_env and self = EmissionProcessor_init, THEN conjunct1, THEN mp, OF b]
  obtain r' where r': "process sample_env EmissionProcessor_init
        (VDict [(''vehicle_CO2'', VFloat (Finite 8000))]) = Inr r'"
    "Finite 8000 = co2_warn_threshold EmissionProcessor_init \<and> Finite 8000 \<noteq> NaN \<longrightarrow>
       py_get r' ''co2_status'' VNone = Inr (VStr ''HIGH'')"
    by (elim exE conjE)
  from r'(2) have "py_get r' ''co2_status'' VNone = Inr (VStr ''HIGH'')"
    by (simp add: EmissionProcessor_init_def)
  with r'(1) have 2: "\<exists>r. process sample_env EmissionProcessor_init
           (VDict [(''vehicle_CO2'', VFloat (Finite 8000))]) = Inr r \<and>
      py_get r ''co2_status'' VNone = Inr (VStr ''HIGH'')"
    by (intro exI [of _ r'] conjI)
  have 3: "\<exists>r. process sample_env EmissionProcessor_init (VDict []) = Inr r"
    by (rule process_status_flags [where kvs = "[]", THEN conjunct2, THEN conjunct1, THEN mp])
      simp
  have h: "process sample_env EmissionProcessor_init car3_event = Inr car3_record"
    by (rule sample_car3)
  from process_status_flags
    [THEN conjunct2, THEN conjunct2, THEN conjunct1, THEN mp, OF h]
  obtain co co2 nox where o: "coerced sample_env car3_event ''vehicle_CO2'' = Inr co2"
    "py_get car3_record ''co2_status'' VNone =
        Inr (VStr (if fge co2 (co2_warn_threshold EmissionProcessor_init)
                   then ''HIGH'' else ''OK''))"
    by (elim exE conjE)
  then have 4: "\<exists>co2. coerced sample_env car3_event ''vehicle_CO2'' = Inr co2 \<and>
      py_get car3_record ''co2_status'' VNone =
        Inr (VStr (if fge co2 (co2_warn_threshold EmissionProcessor_init)
                   then ''HIGH'' else ''OK''))"
    by (intro exI [of _ co2] conjI)
  show ?thesis
    by (intro conjI e c 1 2 3 h 4)
qed

text \<open>
  C2. For every dict event whose five readings coerce, the evaluator returns a record
  whose \<open>emission_score\<close> field is the value of the float expression
  \<open>0.3*CO + 0.0005*CO2 + 1.0*NOx + 5.0*PMx\<close> over the coerced readings (each product and
  each sum rounded to the nearest double, sums taken from left to right); the readings of a
  dict event coerce as soon as none of the five fields is an integer; and a record is
  returned for such events only, with this score. Where \<open>float\<close> reads the strings
  \<open>"9000"\<close>, \<open>"50"\<close> and \<open>"2"\<close> as the numbers they spell, the event of the end-to-end
  scenario gives \<open>co2_status\<close> \<open>HIGH\<close>, \<open>co_status\<close> \<open>OK\<close>, \<open>nox_status\<close> \<open>OK\<close> and the score 21.5.
\<close>

theorem process_emission_score:
  "(event = VDict kvs \<and>
    coerced env event ''vehicle_CO'' = Inr co \<and>
    coerced env event ''vehicle_CO2'' = Inr co2 \<and>
    coerced env event ''vehicle_NOx'' = Inr nox \<and>
    coerced env event ''vehicle_PMx'' = Inr pmx \<and>
    coerced env event ''vehicle_speed'' = Inr speed \<longrightarrow>
      (\<exists>r. process env self event = Inr r \<and>
         py_get r ''emission_score'' VNone =
           Inr (VFloat (fadd (fadd (fadd (fmul (fl (3 / 10)) co) (fmul (fl (5 / 10000)) co2))
                                   (fmul (Finite 1) nox))
                             (fmul (Finite 5) pmx))))) \<and>
   ((\<forall>i. map_of kvs ''vehicle_CO'' \<noteq> Some (VInt i)) \<and>
    (\<forall>i. map_of kvs ''vehicle_CO2'' \<noteq> Some (VInt i)) \<and>
    (\<forall>i. map_of kvs ''vehicle_NOx'' \<noteq> Some (VInt i)) \<and>
    (\<forall>i. map_of kvs ''vehicle_PMx'' \<noteq> Some (VInt i)) \<and>
    (\<forall>i. map_of kvs ''vehicle_speed'' \<noteq> Some (VInt i)) \<longrightarrow>
      (\<exists>r s. process env self (VDict kvs) = Inr r \<and>
         py_get r ''emission_score'' VNone = Inr (VFloat s))) \<and>
   (process env self event = Inr result \<longrightarrow>
      (\<exists>co co2 nox pmx.
         coerced env event ''vehicle_CO'' = Inr co \<and>
         coerced env event ''vehicle_CO2'' = Inr co2 \<and>
         coerced env event ''vehicle_NOx'' = Inr nox \<and>
         coerced env event ''vehicle_PMx'' = Inr pmx \<and>
         py_get result ''emission_score'' VNone =
           Inr (VFloat (fadd (fadd (fadd (fmul (fl (3 / 10)) co) (fmul (fl (5 / 10000)) co2))
                                   (fmul (Finite 1) nox))
                             (fmul (Finite 5) pmx))))) \<and>
   (str_to_float env ''9000'' = Some (Finite 9000) \<and>
    str_to_float env ''50'' = Some (Finite 50) \<and>
    str_to_float env ''2'' = Some (Finite 2) \<longrightarrow>
      process env EmissionProcessor_init car3_event = Inr car3_record \<and>
      py_get car3_record ''co2_status'' VNone = Inr (VStr ''HIGH'') \<and>
      py_get car3_record ''co_status'' VNone = Inr (VStr ''OK'') \<and>
      py_get car3_record ''nox_status'' VNone = Inr (VStr ''OK'') \<and>
      py_get car3_record ''emission_score'' VNone = Inr (VFloat (Finite (215 / 10))))"
proof (intro conjI impI)
  assume a: "event = VDict kvs \<and>
    coerced env event ''vehicle_CO'' = Inr co \<and>
    coerced env event ''vehicle_CO2'' = Inr co2 \<and>
    coerced env event ''vehicle_NOx'' = Inr nox \<and>
    coerced env event ''vehicle_PMx'' = Inr pmx \<and>
    coerced env event ''vehicle_speed'' = Inr speed"
  then have e: "event = VDict kvs"
    and c: "coerced env event ''vehicle_CO'' = Inr co"
      "coerced env event ''vehicle_CO2'' = Inr co2"
      "coerced env event ''vehicle_NOx'' = Inr nox"
      "coerced env event ''vehicle_PMx'' = Inr pmx"
      "coerced env event ''vehicle_speed'' = Inr speed"
    by blast+
  show "\<exists>r. process env self event = Inr r \<and>
         py_get r ''emission_score'' VNone =
           Inr (VFloat (fadd (fadd (fadd (fmul (fl (3 / 10)) co) (fmul (fl (5 / 10000)) co2))
                                   (fmul (Finite 1) nox))
                             (fmul (Finite 5) pmx)))"
    unfolding process_returns [OF e c]
    by (simp add: fmul_commute [of co] fmul_commute [of co2] fmul_commute [of nox]
        fmul_commute [of pmx])
next
  assume n: "(\<forall>i. map_of kvs ''vehicle_CO'' \<noteq> Some (VInt i)) \<and>
    (\<forall>i. map_of kvs ''vehicle_CO2'' \<noteq> Some (VInt i)) \<and>
    (\<forall>i. map_of kvs ''vehicle_NOx'' \<noteq> Some (VInt i)) \<and>
    (\<forall>i. map_of kvs ''vehicle_PMx'' \<noteq> Some (VInt i)) \<and>
    (\<forall>i. map_of kvs ''vehicle_speed'' \<noteq> Some (VInt i))"
  from coerced_returns [OF n [THEN conjunct1], where env = env]
  obtain co' where 1: "coerced env (VDict kvs) ''vehicle_CO'' = Inr co'"
    by blast
  from coerced_returns [OF n [THEN conjunct2, THEN conjunct1], where env = env]
  obtain co2' where 2: "coerced env (VDict kvs) ''vehicle_CO2'' = Inr co2'"
    by blast
  from coerced_returns [OF n [THEN conjunct2, THEN conjunct2, THEN conjunct1], where env = env]
  obtain nox' where 3: "coerced env (VDict kvs) ''vehicle_NOx'' = Inr nox'"
    by blast
  from coerced_returns [OF n [THEN conjunct2, THEN conjunct2, THEN conjunct2, THEN conjunct1], where env = env]
  obtain pmx' where 4: "coerced env (VDict kvs) ''vehicle_PMx'' = Inr pmx'"
    by blast
  from coerced_returns [OF n [THEN conjunct2, THEN conjunct2, THEN conjunct2, THEN conjunct2], where env = env]
  obtain speed' where 5: "coerced env (VDict kvs) ''vehicle_speed'' = Inr speed'"
    by blast
  show "\<exists>r s. process env self (VDict kvs) = Inr r \<and>
         py_get r ''emission_score'' VNone = Inr (VFloat s)"
    unfolding process_returns [OF refl 1 2 3 4 5] by simp
next
  assume "process env self event = Inr result"
  then obtain kvs' co co2 nox pmx speed where
    c: "coerced env event ''vehicle_CO'' = Inr co"
       "coerced env event ''vehicle_CO2'' = Inr co2"
       "coerced env event ''vehicle_NOx'' = Inr nox"
       "coerced env event ''vehicle_PMx'' = Inr pmx"
    and r: "result = VDict
          [(''vehicle_id'',
            py_or (case map_of kvs' ''vehicle_id'' of None \<Rightarrow> VNone | Some v \<Rightarrow> v)
              (VStr ''unknown'')),
           (''timestep_time'', (case map_of kvs' ''timestep_time'' of None \<Rightarrow> VNone | Some v \<Rightarrow> v)),
           (''vehicle_CO'', VFloat co),
           (''vehicle_CO2'', VFloat co2),
           (''vehicle_NOx'', VFloat nox),
           (''vehicle_PMx'', VFloat pmx),
           (''vehicle_speed'', VFloat speed),
           (''co2_status'', VStr (if fge co2 (co2_warn_threshold self) then ''HIGH'' else ''OK'')),
           (''co_status'', VStr (if fge co (co_warn_threshold self) then ''HIGH'' else ''OK'')),
           (''nox_status'', VStr (if fge nox (nox_warn_threshold self) then ''HIGH'' else ''OK'')),
           (''emission_score'',
            VFloat (fadd (fadd (fadd (fmul co (fl (3 / 10))) (fmul co2 (fl (5 / 10000))))
                               (fmul nox (Finite 1)))
                         (fmul pmx (Finite 5))))]"
    unfolding process_Inr_iff by blast
  have "py_get result ''emission_score'' VNone =
          Inr (VFloat (fadd (fadd (fadd (fmul co (fl (3 / 10))) (fmul co2 (fl (5 / 10000))))
                               (fmul nox (Finite 1)))
                         (fmul pmx (Finite 5))))"
    unfolding r by simp
  then have "py_get result ''emission_score'' VNone =
           Inr (VFloat (fadd (fadd (fadd (fmul (fl (3 / 10)) co) (fmul (fl (5 / 10000)) co2))
                                   (fmul (Finite 1) nox))
                             (fmul (Finite 5) pmx)))"
    by (simp only: fmul_commute [of co] fmul_commute [of co2] fmul_commute [of nox]
        fmul_commute [of pmx])
  with c show "\<exists>co co2 nox pmx.
         coerced env event ''vehicle_CO'' = Inr co \<and>
         coerced env event ''vehicle_CO2'' = Inr co2 \<and>
         coerced env event ''vehicle_NOx'' = Inr nox \<and>
         coerced env event ''vehicle_PMx'' = Inr pmx \<and>
         py_get result ''emission_score'' VNone =
           Inr (VFloat (fadd (fadd (fadd (fmul (fl (3 / 10)) co) (fmul (fl (5 / 10000)) co2))
                                   (fmul (Finite 1) nox))
                             (fmul (Finite 5) pmx)))"
    by blast
next
  assume "str_to_float env ''9000'' = Some (Finite 9000) \<and>
    str_to_float env ''50'' = Some (Finite 50) \<and>
    str_to_float env ''2'' = Some (Finite 2)"
  then show "process env EmissionProcessor_init car3_event = Inr car3_record"
    by (intro car3_process) simp_all
qed (simp_all add: car3_record_def)

text \<open>
  The score of the event of the end-to-end scenario, computed from its coerced readings,
  is 21.5; an event with no field at all gives a record with a score.
\<close>

theorem process_emission_score_witness:
  "str_to_float sample_env ''9000'' = Some (Finite 9000) \<and>
   str_to_float sample_env ''50'' = Some (Finite 50) \<and>
   str_to_float sample_env ''2'' = Some (Finite 2) \<and>
   car3_event = VDict [(''vehicle_id'', VStr ''car-3''), (''vehicle_CO2'', VStr ''9000''),
                       (''vehicle_CO'', VStr ''50''), (''vehicle_NOx'', VStr ''2'')] \<and>
   coerced sample_env car3_event ''vehicle_CO'' = Inr (Finite 50) \<and>
   coerced sample_env car3_event ''vehicle_CO2'' = Inr (Finite 9000) \<and>
   coerced sample_env car3_event ''vehicle_NOx'' = Inr (Finite 2) \<and>
   coerced sample_env car3_event ''vehicle_PMx'' = Inr (Finite 0) \<and>
   coerced sample_env car3_event ''vehicle_speed'' = Inr (Finite 0) \<and>
   (\<exists>r. process sample_env EmissionProcessor_init car3_event = Inr r \<and>
      py_get r ''emission_score'' VNone = Inr (VFloat (Finite (215 / 10)))) \<and>
   (\<exists>r s. process sample_env EmissionProcessor_init (VDict []) = Inr r \<and>
      py_get r ''emission_score'' VNone = Inr (VFloat s)) \<and>
   process sample_env EmissionProcessor_init car3_event = Inr car3_record \<and>
   py_get car3_record ''emission_score'' VNone = Inr (VFloat (Finite (215 / 10))) \<and>
   (\<exists>co co2 nox pmx.
      coerced sample_env car3_event ''vehicle_CO'' = Inr co \<and>
      coerced sample_env car3_event ''vehicle_CO2'' = Inr co2 \<and>
      coerced sample_env car3_event ''vehicle_NOx'' = Inr nox \<and>
      coerced sample_env car3_event ''vehicle_PMx'' = Inr pmx \<and>
      py_get car3_record ''emission_score'' VNone =
        Inr (VFloat (fadd (fadd (fadd (fmul (fl (3 / 10)) co) (fmul (fl (5 / 10000)) co2))
                                (fmul (Finite 1) nox))
                          (fmul (Finite 5) pmx))))"
proof -
  have s: "str_to_float sample_env ''9000'' = Some (Finite 9000) \<and>
      str_to_float sample_env ''50'' = Some (Finite 50) \<and>
      str_to_float sample_env ''2'' = Some (Finite 2)"
    by (simp add: sample_str_to_float plain_decimal_9000 plain_decimal_50 plain_decimal_2)
  then have s': "str_to_float sample_env ''9000'' = Some (Finite 9000)"
    "str_to_float sample_env ''50'' = Some (Finite 50)"
    "str_to_float sample_env ''2'' = Some (Finite 2)"
    by simp_all
  note c = car3_coerced [OF s']
  have e: "car3_event = VDict [(''vehicle_id'', VStr ''car-3''), (''vehicle_CO2'', VStr ''9000''),
                       (''vehicle_CO'', VStr ''50''), (''vehicle_NOx'', VStr ''2'')]"
    by (simp add: car3_event_def)
  have v: "fadd (fadd (fadd (fmul (fl (3 / 10)) (Finite 50)) (fmul (fl (5 / 10000)) (Finite 9000)))
                      (fmul (Finite 1) (Finite 2)))
                 (fmul (Finite 5) (Finite 0)) = Finite (215 / 10)"
    unfolding fmul_commute [of _ "Finite 50"] fmul_commute [of _ "Finite 9000"]
      fmul_commute [of _ "Finite 2"] fmul_commute [of _ "Finite 0"] car3_score
    by simp
  have a: "car3_event = VDict [(''vehicle_id'', VStr ''car-3''), (''vehicle_CO2'', VStr ''9000''),
                       (''vehicle_CO'', VStr ''50''), (''vehicle_NOx'', VStr ''2'')] \<and>
    coerced sample_env car3_event ''vehicle_CO'' = Inr (Finite 50) \<and>
    coerced sample_env car3_event ''vehicle_CO2'' = Inr (Finite 9000) \<and>
    coerced sample_env car3_event ''vehicle_NOx'' = Inr (Finite 2) \<and>
    coerced sample_env car3_event ''vehicle_PMx'' = Inr (Finite 0) \<and>
    coerced sample_env car3_event ''vehicle_speed'' = Inr (Finite 0)"
    by (intro conjI e c)
  from process_emission_score
    [where env = sample_env and self = EmissionProcessor_init, THEN conjunct1, THEN mp, OF a]
  have 1: "\<exists>r. process sample_env EmissionProcessor_init car3_event = Inr r \<and>
      py_get r ''emission_score'' VNone = Inr (VFloat (Finite (215 / 10)))"
    unfolding v .
  have 2: "\<exists>r s. process sample_env EmissionProcessor_init (VDict []) = Inr r \<and>
      py_get r ''emission_score'' VNone = Inr (VFloat s)"
    by (rule process_emission_score [where kvs = "[]", THEN conjunct2, THEN conjunct1, THEN mp])
      simp
  note t = process_emission_score
    [where env = sample_env, THEN conjunct2, THEN conjunct2, THEN conjunct2, THEN mp, OF s]
  from t have p: "process sample_env EmissionProcessor_init car3_event = Inr car3_record"
    by (rule conjunct1)
  from t have q: "py_get car3_record ''emission_score'' VNone = Inr (VFloat (Finite (215 / 10)))"
    by simp
  from process_emission_score
    [THEN conjunct2, THEN conjunct2, THEN conjunct1, THEN mp, OF p]
  have 3: "\<exists>co co2 nox pmx.
      coerced sample_env car3_event ''vehicle_CO'' = Inr co \<and>
      coerced sample_env car3_event ''vehicle_CO2'' = Inr co2 \<and>
      coerced sample_env car3_event ''vehicle_NOx'' = Inr nox \<and>
      coerced sample_env car3_event ''vehicle_PMx'' = Inr pmx \<and>
      py_get car3_record ''emission_score'' VNone =
        Inr (VFloat (fadd (fadd (fadd (fmul (fl (3 / 10)) co) (fmul (fl (5 / 10000)) co2))
                                (fmul (Finite 1) nox))
                          (fmul (Finite 5) pmx)))" .
  show ?thesis
    by (intro conjI s' e c 1 2 p q 3)
qed

text \<open>
  C3 (the code departs from it). An integer too large for a double, which a JSON payload
  can carry, makes \<open>float\<close> raise \<open>OverflowError\<close>; \<open>_safe_float\<close> catches \<open>TypeError\<close> and
  \<open>ValueError\<close> only, so the exception leaves the evaluator instead of the field being
  read as \<open>0.0\<close>.
\<close>

theorem process_overflow_escapes:
  "process env self (VDict [(''vehicle_CO'', VInt (2 ^ 1024))]) = Inl OverflowError"
  by (rule process_co_raises) (rule safe_float_overflow)

text \<open>
  C10. Whenever the \<open>vehicle_id\<close> of the event is falsy (absent, \<open>None\<close>, the empty string,
  \<open>0\<close>, \<open>False\<close>, ...), the record's \<open>vehicle_id\<close> is \<open>"unknown"\<close>; and an event with a falsy
  \<open>vehicle_id\<close> gives the same result as the event without the field.
\<close>

theorem process_falsy_vehicle_id:
  "(process env self event = Inr result \<and> py_get event ''vehicle_id'' VNone = Inr v \<and>
      \<not> truthy v \<longrightarrow>
      py_get result ''vehicle_id'' VNone = Inr (VStr ''unknown'')) \<and>
   \<not> truthy VNone \<and> \<not> truthy (VStr '''') \<and> \<not> truthy (VInt 0) \<and> \<not> truthy (VBool False) \<and>
   (map_of kvs ''vehicle_id'' = None \<and> \<not> truthy v \<longrightarrow>
      process env self (VDict ((''vehicle_id'', v) # kvs)) = process env self (VDict kvs))"
proof (intro conjI impI)
  assume a: "process env self event = Inr result \<and>
    py_get event ''vehicle_id'' VNone = Inr v \<and> \<not> truthy v"
  then obtain kvs' co co2 nox pmx speed where e: "event = VDict kvs'"
    and r: "result = VDict
          [(''vehicle_id'',
            py_or (case map_of kvs' ''vehicle_id'' of None \<Rightarrow> VNone | Some v \<Rightarrow> v)
              (VStr ''unknown'')),
           (''timestep_time'', (case map_of kvs' ''timestep_time'' of None \<Rightarrow> VNone | Some v \<Rightarrow> v)),
           (''vehicle_CO'', VFloat co),
           (''vehicle_CO2'', VFloat co2),
           (''vehicle_NOx'', VFloat nox),
           (''vehicle_PMx'', VFloat pmx),
           (''vehicle_speed'', VFloat speed),
           (''co2_status'', VStr (if fge co2 (co2_warn_threshold self) then ''HIGH'' else ''OK'')),
           (''co_status'', VStr (if fge co (co_warn_threshold self) then ''HIGH'' else ''OK'')),
           (''nox_status'', VStr (if fge nox (nox_warn_threshold self) then ''HIGH'' else ''OK'')),
           (''emission_score'',
            VFloat (fadd (fadd (fadd (fmul co (fl (3 / 10))) (fmul co2 (fl (5 / 10000))))
                               (fmul nox (Finite 1)))
                         (fmul pmx (Finite 5))))]"
    unfolding process_Inr_iff by blast
  from a e have "(case map_of kvs' ''vehicle_id'' of None \<Rightarrow> VNone | Some v \<Rightarrow> v) = v"
    by simp
  with a show "py_get result ''vehicle_id'' VNone = Inr (VStr ''unknown'')"
    unfolding r by (simp add: py_or_def)
next
  assume "map_of kvs ''vehicle_id'' = None \<and> \<not> truthy v"
  then show "process env self (VDict ((''vehicle_id'', v) # kvs)) = process env self (VDict kvs)"
    by (simp add: process_def bind_exn_def py_or_def)
qed simp_all

theorem process_falsy_vehicle_id_witness:
  "py_get (VDict [(''vehicle_id'', VStr '''')]) ''vehicle_id'' VNone = Inr (VStr '''') \<and>
   \<not> truthy (VStr '''') \<and>
   (\<exists>result.
      process sample_env EmissionProcessor_init (VDict [(''vehicle_id'', VStr '''')]) = Inr result \<and>
      py_get result ''vehicle_id'' VNone = Inr (VStr ''unknown'')) \<and>
   map_of ([] :: (string \<times> pyval) list) ''vehicle_id'' = None \<and>
   process sample_env EmissionProcessor_init (VDict [(''vehicle_id'', VStr '''')]) =
     process sample_env EmissionProcessor_init (VDict [])"
proof -
  have "\<exists>result.
      process sample_env EmissionProcessor_init (VDict [(''vehicle_id'', VStr '''')]) = Inr result"
    by (simp add: process_Inr_iff coerced_def bind_exn_def safe_float_def)
  then obtain result where
    h: "process sample_env EmissionProcessor_init (VDict [(''vehicle_id'', VStr '''')]) = Inr result"
    by blast
  have g: "py_get (VDict [(''vehicle_id'', VStr '''')]) ''vehicle_id'' VNone = Inr (VStr '''')"
    and f: "\<not> truthy (VStr '''')"
    and m: "map_of ([] :: (string \<times> pyval) list) ''vehicle_id'' = None"
    by simp_all
  note t = process_falsy_vehicle_id
    [where env = sample_env and self = EmissionProcessor_init
       and event = "VDict [(''vehicle_id'', VStr '''')]" and result = result
       and v = "VStr ''''" and kvs = "[]"]
  from t h g f have u: "py_get result ''vehicle_id'' VNone = Inr (VStr ''unknown'')"
    by blast
  from t m f have
    "process sample_env EmissionProcessor_init (VDict [(''vehicle_id'', VStr '''')]) =
       process sample_env EmissionProcessor_init (VDict [])"
    by blast
  with h u g f m show ?thesis by blast
qed

section \<open>The Greengrass component\<close>

lemma mqtt_publishes_simps [simp]:
  "mqtt_publishes [] = []"
  "mqtt_publishes (w @ v) = mqtt_publishes w @ mqtt_publishes v"
  "mqtt_publishes (a # w) =
     (case a of MqttPublish t p q \<Rightarrow> [(t, p, q)] | _ \<Rightarrow> []) @ mqtt_publishes w"
  by (simp_all add: mqtt_publishes_def)

lemma firehose_puts_simps [simp]:
  "firehose_puts [] = []"
  "firehose_puts (w @ v) = firehose_puts w @ firehose_puts v"
  "firehose_puts (a # w) =
     (case a of FirehosePut n d \<Rightarrow> [(n, d)] | _ \<Rightarrow> []) @ firehose_puts w"
  by (simp_all add: firehose_puts_def)

lemma process_vehicle_id:
  "process env self event = Inr result \<Longrightarrow>
     \<exists>vid. py_get result ''vehicle_id'' VNone = Inr vid \<and> truthy vid"
  by (auto simp add: process_Inr_iff py_or_def)

lemma handle_try_record:
  assumes "py_get ev ''data'' ev = Inr pl"
    and "lambda_handler env pl = Inr result"
    and "py_get result ''vehicle_id'' VNone = Inr vid"
    and "truthy vid"
  shows "handle_vehicle_message_try env m fh ev w =
     (case m (w @ [log_received, log_processed, log_publishing])
             (OUTPUT_TOPIC_PREFIX @ py_format env vid) (json_dumps env result) 0 of
        Some e \<Rightarrow>
          (Some e,
           w @ [log_received, log_processed, log_publishing,
                MqttPublish (OUTPUT_TOPIC_PREFIX @ py_format env vid) (json_dumps env result) 0])
      | None \<Rightarrow>
          (None,
           publish_to_firehose fh (json_dumps env result)
             (w @ [log_received, log_processed, log_publishing,
                   MqttPublish (OUTPUT_TOPIC_PREFIX @ py_format env vid)
                     (json_dumps env result) 0])))"
  using assms
  by (simp add: handle_vehicle_message_try_def select_vehicle_id_def bind_exn_def Let_def
      split: option.splits)

lemma handle_vehicle_message_returns:
  "fst (handle_vehicle_message env m fh ev w) = None"
  by (simp add: handle_vehicle_message_def split: prod.splits option.splits)

lemma handle_try_no_client:
  "firehose_puts (snd (handle_vehicle_message_try env m None ev w)) = firehose_puts w"
  by (simp add: handle_vehicle_message_try_def publish_to_firehose_def Let_def
      split: sum.splits option.splits)

lemma handle_no_client:
  "firehose_puts (snd (handle_vehicle_message env m None ev w)) = firehose_puts w"
  using handle_try_no_client [of env m ev w]
  by (cases "handle_vehicle_message_try env m None ev w")
    (simp add: handle_vehicle_message_def split: option.splits)

lemma car3_payload: "py_get car3_event ''data'' car3_event = Inr car3_event"
  by (simp add: car3_event_def)

lemma car3_lambda_handler: "lambda_handler sample_env car3_event = Inr car3_record"
  by (simp add: lambda_handler_def sample_car3)

lemma car3_record_vehicle_id: "py_get car3_record ''vehicle_id'' VNone = Inr (VStr ''car-3'')"
  by (simp add: car3_record_def)

lemma car3_topic: "OUTPUT_TOPIC_PREFIX @ py_format env (VStr ''car-3'') = ''iot/Vehicle_car-3''"
  by (simp add: OUTPUT_TOPIC_PREFIX_def py_format_def)

text \<open>
  C4 (as amended). For every event whose payload is a dict for which the evaluator
  returns a record, the handler logs, makes exactly one live-topic publish attempt and,
  after it, one durable-stream append attempt when the publish returned and a Firehose
  client is configured; a failed append is logged and changes nothing else; a publish that
  raises is logged and ends the handling of the event, with no append attempt; without a
  Firehose client the append is skipped with a warning. The handler returns normally in
  every case.
\<close>

theorem handle_vehicle_message_fanout:
  assumes "py_get ev ''data'' ev = Inr pl"
    and "lambda_handler env pl = Inr result"
  shows "\<exists>vid.
     py_get result ''vehicle_id'' VNone = Inr vid \<and>
     handle_vehicle_message env m fh ev w =
       (None,
        w @ [log_received, log_processed, log_publishing,
             MqttPublish (OUTPUT_TOPIC_PREFIX @ py_format env vid) (json_dumps env result) 0]
          @ (case m (w @ [log_received, log_processed, log_publishing])
                    (OUTPUT_TOPIC_PREFIX @ py_format env vid) (json_dumps env result) 0 of
               Some e \<Rightarrow> [log_error]
             | None \<Rightarrow>
                 (case fh of
                    None \<Rightarrow> [log_firehose_skipped]
                  | Some f \<Rightarrow>
                      [FirehosePut FIREHOSE_STREAM_NAME (json_dumps env result @ newline),
                       case f (w @ [log_received, log_processed, log_publishing,
                                    MqttPublish (OUTPUT_TOPIC_PREFIX @ py_format env vid)
                                      (json_dumps env result) 0])
                              FIREHOSE_STREAM_NAME (json_dumps env result @ newline) of
                         None \<Rightarrow> log_firehose_sent
                       | Some fe \<Rightarrow> log_firehose_failed])))"
proof -
  from assms(2) obtain vid where
    v: "py_get result ''vehicle_id'' VNone = Inr vid" "truthy vid"
    unfolding lambda_handler_def by (blast dest: process_vehicle_id)
  have "handle_vehicle_message env m fh ev w =
       (None,
        w @ [log_received, log_processed, log_publishing,
             MqttPublish (OUTPUT_TOPIC_PREFIX @ py_format env vid) (json_dumps env result) 0]
          @ (case m (w @ [log_received, log_processed, log_publishing])
                    (OUTPUT_TOPIC_PREFIX @ py_format env vid) (json_dumps env result) 0 of
               Some e \<Rightarrow> [log_error]
             | None \<Rightarrow>
                 (case fh of
                    None \<Rightarrow> [log_firehose_skipped]
                  | Some f \<Rightarrow>
                      [FirehosePut FIREHOSE_STREAM_NAME (json_dumps env result @ newline),
                       case f (w @ [log_received, log_processed, log_publishing,
                                    MqttPublish (OUTPUT_TOPIC_PREFIX @ py_format env vid)
                                      (json_dumps env result) 0])
                              FIREHOSE_STREAM_NAME (json_dumps env result @ newline) of
                         None \<Rightarrow> log_firehose_sent
                       | Some fe \<Rightarrow> log_firehose_failed])))"
    unfolding handle_vehicle_message_def handle_try_record [OF assms v]
    by (simp add: publish_to_firehose_def split: option.splits)
  with v(1) show ?thesis by blast
qed

text \<open>A durable stream that is down leaves the live-topic publish as it is.\<close>

theorem handle_vehicle_message_fanout_witness:
  "py_get car3_event ''data'' car3_event = Inr car3_event \<and>
   lambda_handler sample_env car3_event = Inr car3_record \<and>
   handle_vehicle_message sample_env mqtt_up (Some firehose_down) car3_event [] =
     (None,
      [log_received, log_processed, log_publishing,
       MqttPublish ''iot/Vehicle_car-3'' (json_dumps sample_env car3_record) 0,
       FirehosePut ''lab4-vehicle-emissions-stream''
         (json_dumps sample_env car3_record @ newline),
       log_firehose_failed])"
proof -
  from handle_vehicle_message_fanout [OF car3_payload car3_lambda_handler,
      of mqtt_up "Some firehose_down" "[]"]
  have "handle_vehicle_message sample_env mqtt_up (Some firehose_down) car3_event [] =
     (None,
      [log_received, log_processed, log_publishing,
       MqttPublish ''iot/Vehicle_car-3'' (json_dumps sample_env car3_record) 0,
       FirehosePut ''lab4-vehicle-emissions-stream''
         (json_dumps sample_env car3_record @ newline),
       log_firehose_failed])"
    by (auto simp add: car3_record_vehicle_id car3_topic mqtt_up_def firehose_down_def
        FIREHOSE_STREAM_NAME_def)
  with car3_payload car3_lambda_handler show ?thesis by blast
qed

text \<open>
  The claim as stated fails: with a live-topic publish that raises, and a Firehose client
  that is configured and up, no append is attempted.
\<close>

theorem handle_vehicle_message_publish_failure:
  "lambda_handler sample_env car3_event = Inr car3_record \<and>
   handle_vehicle_message sample_env mqtt_down (Some firehose_up) car3_event [] =
     (None,
      [log_received, log_processed, log_publishing,
       MqttPublish ''iot/Vehicle_car-3'' (json_dumps sample_env car3_record) 0,
       log_error]) \<and>
   firehose_puts
     (snd (handle_vehicle_message sample_env mqtt_down (Some firehose_up) car3_event [])) = []"
proof -
  have v: "truthy (VStr ''car-3'')" by simp
  have "handle_vehicle_message sample_env mqtt_down (Some firehose_up) car3_event [] =
     (None,
      [log_received, log_processed, log_publishing,
       MqttPublish ''iot/Vehicle_car-3'' (json_dumps sample_env car3_record) 0,
       log_error])"
    unfolding handle_vehicle_message_def
      handle_try_record [OF car3_payload car3_lambda_handler car3_record_vehicle_id v]
    by (simp add: car3_topic mqtt_down_def)
  with car3_lambda_handler show ?thesis by simp
qed

text \<open>
  C8. Building the Firehose client inside \<open>configure_firehose_client\<close> fails and the
  function returns \<open>None\<close>. With no Firehose client the handler never fails and never
  attempts an append; every record the evaluator returns is still published to the live
  topic (one attempt), followed by the warning that the append is skipped when the publish
  returned.
\<close>

theorem handle_vehicle_message_without_firehose:
  "configure_firehose_client w =
     (None, w @ [Log INFO ''Initializing Firehose client for region %s'',
                 Log EXCEPTION ''Failed to initialize Firehose client: %s'']) \<and>
   fst (handle_vehicle_message env m None ev w) = None \<and>
   firehose_puts (snd (handle_vehicle_message env m None ev w)) = firehose_puts w \<and>
   (py_get ev ''data'' ev = Inr pl \<and> lambda_handler env pl = Inr result \<longrightarrow>
      (\<exists>vid.
         py_get result ''vehicle_id'' VNone = Inr vid \<and>
         handle_vehicle_message env m None ev w =
           (None,
            w @ [log_received, log_processed, log_publishing,
                 MqttPublish (OUTPUT_TOPIC_PREFIX @ py_format env vid)
                   (json_dumps env result) 0,
                 case m (w @ [log_received, log_processed, log_publishing])
                        (OUTPUT_TOPIC_PREFIX @ py_format env vid) (json_dumps env result) 0 of
                   None \<Rightarrow> log_firehose_skipped
                 | Some e \<Rightarrow> log_error])))"
proof (intro conjI impI)
  show "configure_firehose_client w =
     (None, w @ [Log INFO ''Initializing Firehose client for region %s'',
                 Log EXCEPTION ''Failed to initialize Firehose client: %s''])"
    by (simp add: configure_firehose_client_def boto3_client_def)
  show "fst (handle_vehicle_message env m None ev w) = None"
    by (rule handle_vehicle_message_returns)
  show "firehose_puts (snd (handle_vehicle_message env m None ev w)) = firehose_puts w"
    by (rule handle_no_client)
next
  assume a: "py_get ev ''data'' ev = Inr pl \<and> lambda_handler env pl = Inr result"
  then obtain vid where
    v: "py_get result ''vehicle_id'' VNone = Inr vid" "truthy vid"
    unfolding lambda_handler_def by (blast dest: process_vehicle_id)
  from a have p: "py_get ev ''data'' ev = Inr pl" and l: "lambda_handler env pl = Inr result"
    by simp_all
  have "handle_vehicle_message env m None ev w =
           (None,
            w @ [log_received, log_processed, log_publishing,
                 MqttPublish (OUTPUT_TOPIC_PREFIX @ py_format env vid)
                   (json_dumps env result) 0,
                 case m (w @ [log_received, log_processed, log_publishing])
                        (OUTPUT_TOPIC_PREFIX @ py_format env vid) (json_dumps env result) 0 of
                   None \<Rightarrow> log_firehose_skipped
                 | Some e \<Rightarrow> log_error])"
    unfolding handle_vehicle_message_def handle_try_record [OF p l v]
    by (simp add: publish_to_firehose_def split: option.splits)
  with v(1) show "\<exists>vid.
         py_get result ''vehicle_id'' VNone = Inr vid \<and>
         handle_vehicle_message env m None ev w =
           (None,
            w @ [log_received, log_processed, log_publishing,
                 MqttPublish (OUTPUT_TOPIC_PREFIX @ py_format env vid)
                   (json_dumps env result) 0,
                 case m (w @ [log_received, log_processed, log_publishing])
                        (OUTPUT_TOPIC_PREFIX @ py_format env vid) (json_dumps env result) 0 of
                   None \<Rightarrow> log_firehose_skipped
                 | Some e \<Rightarrow> log_error])"
    by blast
qed

theorem handle_vehicle_message_without_firehose_witness:
  "py_get car3_event ''data'' car3_event = Inr car3_event \<and>
   lambda_handler sample_env car3_event = Inr car3_record \<and>
   handle_vehicle_message sample_env mqtt_up None car3_event [] =
     (None,
      [log_received, log_processed, log_publishing,
       MqttPublish ''iot/Vehicle_car-3'' (json_dumps sample_env car3_record) 0,
       log_firehose_skipped])"
proof -
  note t = handle_vehicle_message_without_firehose
    [where env = sample_env and m = mqtt_up and ev = car3_event and w = "[]"
       and pl = car3_event and result = car3_record]
  from t car3_payload car3_lambda_handler
  have "\<exists>vid.
         py_get car3_record ''vehicle_id'' VNone = Inr vid \<and>
         handle_vehicle_message sample_env mqtt_up None car3_event [] =
           (None,
            [] @ [log_received, log_processed, log_publishing,
                 MqttPublish (OUTPUT_TOPIC_PREFIX @ py_format sample_env vid)
                   (json_dumps sample_env car3_record) 0,
                 case mqtt_up ([] @ [log_received, log_processed, log_publishing])
                        (OUTPUT_TOPIC_PREFIX @ py_format sample_env vid)
                        (json_dumps sample_env car3_record) 0 of
                   None \<Rightarrow> log_firehose_skipped
                 | Some e \<Rightarrow> log_error])"
    by blast
  then have "handle_vehicle_message sample_env mqtt_up None car3_event [] =
     (None,
      [log_received, log_processed, log_publishing,
       MqttPublish ''iot/Vehicle_car-3'' (json_dumps sample_env car3_record) 0,
       log_firehose_skipped])"
    by (auto simp add: car3_record_vehicle_id car3_topic mqtt_up_def)
  with car3_payload car3_lambda_handler show ?thesis by blast
qed

text \<open>
  C9. For every record the evaluator returns, the live-topic publish goes to the topic
  \<open>iot/Vehicle_\<close> followed by the record's \<open>vehicle_id\<close> (as it is when it is a string), with
  the serialised record as payload; and the data of a durable-stream append, when one is
  attempted, is the serialised record followed by one newline character.
\<close>

theorem handle_vehicle_message_topic_and_data:
  assumes "py_get ev ''data'' ev = Inr pl"
    and "lambda_handler env pl = Inr result"
  shows "\<exists>vid.
     py_get result ''vehicle_id'' VNone = Inr vid \<and>
     mqtt_publishes (snd (handle_vehicle_message env m fh ev w)) =
       mqtt_publishes w @ [(''iot/Vehicle_'' @ py_format env vid, json_dumps env result, 0)] \<and>
     (\<forall>s. vid = VStr s \<longrightarrow> py_format env vid = s) \<and>
     firehose_puts (snd (handle_vehicle_message env m fh ev w)) =
       firehose_puts w @
         (if m (w @ [log_received, log_processed, log_publishing])
               (''iot/Vehicle_'' @ py_format env vid) (json_dumps env result) 0 = None \<and>
             fh \<noteq> None
          then [(''lab4-vehicle-emissions-stream'', json_dumps env result @ [CHR 0x0A])]
          else [])"
proof -
  from assms(2) obtain vid where
    v: "py_get result ''vehicle_id'' VNone = Inr vid" "truthy vid"
    unfolding lambda_handler_def by (blast dest: process_vehicle_id)
  have "mqtt_publishes (snd (handle_vehicle_message env m fh ev w)) =
       mqtt_publishes w @ [(''iot/Vehicle_'' @ py_format env vid, json_dumps env result, 0)]"
    unfolding handle_vehicle_message_def handle_try_record [OF assms v]
    by (simp add: publish_to_firehose_def OUTPUT_TOPIC_PREFIX_def Let_def split: option.splits)
  moreover have "firehose_puts (snd (handle_vehicle_message env m fh ev w)) =
       firehose_puts w @
         (if m (w @ [log_received, log_processed, log_publishing])
               (''iot/Vehicle_'' @ py_format env vid) (json_dumps env result) 0 = None \<and>
             fh \<noteq> None
          then [(''lab4-vehicle-emissions-stream'', json_dumps env result @ [CHR 0x0A])]
          else [])"
    unfolding handle_vehicle_message_def handle_try_record [OF assms v]
    by (auto simp add: publish_to_firehose_def OUTPUT_TOPIC_PREFIX_def FIREHOSE_STREAM_NAME_def
        newline_def Let_def split: option.splits)
  moreover have "\<forall>s. vid = VStr s \<longrightarrow> py_format env vid = s"
    by (simp add: py_format_def)
  ultimately show ?thesis using v(1) by blast
qed

theorem handle_vehicle_message_topic_and_data_witness:
  "py_get car3_event ''data'' car3_event = Inr car3_event \<and>
   lambda_handler sample_env car3_event = Inr car3_record \<and>
   mqtt_publishes
     (snd (handle_vehicle_message sample_env mqtt_up (Some firehose_up) car3_event [])) =
     [(''iot/Vehicle_car-3'', json_dumps sample_env car3_record, 0)] \<and>
   firehose_puts
     (snd (handle_vehicle_message sample_env mqtt_up (Some firehose_up) car3_event [])) =
     [(''lab4-vehicle-emissions-stream'', json_dumps sample_env car3_record @ [CHR 0x0A])]"
proof -
  from handle_vehicle_message_topic_and_data [OF car3_payload car3_lambda_handler,
      of mqtt_up "Some firehose_up" "[]"]
  have "mqtt_publishes
     (snd (handle_vehicle_message sample_env mqtt_up (Some firehose_up) car3_event [])) =
     [(''iot/Vehicle_car-3'', json_dumps sample_env car3_record, 0)] \<and>
   firehose_puts
     (snd (handle_vehicle_message sample_env mqtt_up (Some firehose_up) car3_event [])) =
     [(''lab4-vehicle-emissions-stream'', json_dumps sample_env car3_record @ [CHR 0x0A])]"
    by (auto simp add: car3_record_vehicle_id py_format_def mqtt_up_def)
  with car3_payload car3_lambda_handler show ?thesis by blast
qed

text \<open>
  C5. The callback never raises, and the subscription goes on to the next message after
  every message. For a message whose payload does not decode as UTF-8 JSON the callback
  only logs the failure: the evaluator is not called and nothing is sent to either sink.
\<close>

lemma on_message_callback_returns:
  "fst (on_message_callback env ud msg w) = None"
  by (simp add: on_message_callback_def Let_def handle_vehicle_message_returns
      split: option.splits)

lemma deliver_returns: "fst (deliver env ud msgs w) = None"
proof (induction msgs arbitrary: w)
  case Nil
  show ?case by simp
next
  case (Cons msg msgs)
  from on_message_callback_returns [of env ud msg w]
  obtain w' where "on_message_callback env ud msg w = (None, w')"
    by (cases "on_message_callback env ud msg w") simp
  with Cons show ?case by simp
qed

theorem on_message_callback_drops_malformed:
  "fst (on_message_callback env ud msg w) = None \<and>
   fst (deliver env ud msgs w) = None \<and>
   deliver env ud (msg # msgs) w = deliver env ud msgs (snd (on_message_callback env ud msg w)) \<and>
   (decode_event env msg = None \<longrightarrow>
      on_message_callback env ud msg w =
        (None,
         w @ (if utf8_decode env (payload msg) = None then [log_decode_failed]
              else [log_message_received, log_decode_failed])) \<and>
      mqtt_publishes (snd (on_message_callback env ud msg w)) = mqtt_publishes w \<and>
      firehose_puts (snd (on_message_callback env ud msg w)) = firehose_puts w)"
proof (intro conjI impI)
  show "fst (on_message_callback env ud msg w) = None"
    by (rule on_message_callback_returns)
  show "fst (deliver env ud msgs w) = None"
    by (rule deliver_returns)
  from on_message_callback_returns [of env ud msg w]
  show "deliver env ud (msg # msgs) w =
      deliver env ud msgs (snd (on_message_callback env ud msg w))"
    by (cases "on_message_callback env ud msg w") simp
next
  assume d: "decode_event env msg = None"
  then show c: "on_message_callback env ud msg w =
        (None,
         w @ (if utf8_decode env (payload msg) = None then [log_decode_failed]
              else [log_message_received, log_decode_failed]))"
    by (auto simp add: decode_event_def on_message_callback_def Let_def split: option.splits)
  show "mqtt_publishes (snd (on_message_callback env ud msg w)) = mqtt_publishes w"
    unfolding c by simp
  show "firehose_puts (snd (on_message_callback env ud msg w)) = firehose_puts w"
    unfolding c by simp
qed

theorem on_message_callback_drops_malformed_witness:
  "decode_event sample_env bad_message = None \<and>
   on_message_callback sample_env sample_userdata bad_message [] =
     (None, [log_message_received, log_decode_failed]) \<and>
   deliver sample_env sample_userdata [bad_message, bad_message] [] =
     (None, [log_message_received, log_decode_failed, log_message_received, log_decode_failed])"
proof -
  have d: "decode_event sample_env bad_message = None"
    and u: "utf8_decode sample_env (payload bad_message) \<noteq> None"
    by (simp_all add: decode_event_def sample_env_def bad_message_def)
  note t = on_message_callback_drops_malformed
    [where env = sample_env and ud = sample_userdata and msg = bad_message]
  from t [where w = "[]"] d u
  have c: "on_message_callback sample_env sample_userdata bad_message [] =
     (None, [log_message_received, log_decode_failed])"
    by simp
  from t [where w = "[log_message_received, log_decode_failed]"] d u
  have c': "on_message_callback sample_env sample_userdata bad_message
       [log_message_received, log_decode_failed] =
     (None, [log_message_received, log_decode_failed, log_message_received, log_decode_failed])"
    by simp
  from t [where w = "[]" and msgs = "[bad_message]"] c
  have "deliver sample_env sample_userdata [bad_message, bad_message] [] =
      deliver sample_env sample_userdata [bad_message] [log_message_received, log_decode_failed]"
    by simp
  with c' have "deliver sample_env sample_userdata [bad_message, bad_message] [] =
     (None, [log_message_received, log_decode_failed, log_message_received, log_decode_failed])"
    by simp
  with d c show ?thesis by blast
qed

section \<open>The fleet publishers\<close>

lemma async_publishes_append [simp]:
  "async_publishes (w @ v) = async_publishes w @ async_publishes v"
  by (simp add: async_publishes_def)

lemma iot_publishes_append [simp]:
  "iot_publishes (w @ v) = iot_publishes w @ iot_publishes v"
  by (simp add: iot_publishes_def)

lemma async_publishes_rows:
  "async_publishes (concat (map (\<lambda>row. [Print (f row), PublishAsync d t (g row) q, Sleep s]) rows))
     = map (\<lambda>row. (d, t, g row, q)) rows"
  by (induction rows) (simp_all add: async_publishes_def)

lemma iot_publishes_rows:
  "iot_publishes (concat (map (\<lambda>row. [Print (f row), IotPublish t q (g row), Sleep s]) rows))
     = map (\<lambda>row. (t, q, g row)) rows"
  by (induction rows) (simp_all add: iot_publishes_def)

lemma MQTTClient_publish_rows_trace:
  "MQTTClient_publish_rows env sdk self tpc rows w = (None, w') \<Longrightarrow>
     w' = w @ concat (map (\<lambda>row.
            [Print (''Publishing from '' @ device_id self @ '': '' @ json_dumps env row),
             PublishAsync (device_id self) tpc (json_dumps env row) 0,
             Sleep (fl (2 / 10))]) rows)"
proof (induction rows arbitrary: w)
  case Nil
  then show ?case by simp
next
  case (Cons row rows)
  from Cons.prems have
    "MQTTClient_publish_rows env sdk self tpc rows
       (w @ [Print (''Publishing from '' @ device_id self @ '': '' @ json_dumps env row),
             PublishAsync (device_id self) tpc (json_dumps env row) 0,
             Sleep (fl (2 / 10))]) = (None, w')"
    by (simp add: Let_def split: option.splits)
  from Cons.IH [OF this] show ?case by simp
qed

lemma MQTTClient_publish_rows_returns:
  "\<forall>v d t p q. sdk_publishAsync sdk v d t p q = None \<Longrightarrow>
     fst (MQTTClient_publish_rows env sdk self tpc rows w) = None"
  by (induction rows arbitrary: w) (simp_all add: Let_def)

lemma publish_car_rows_trace:
  "publish_car_rows env iot dev rows w = (None, w') \<Longrightarrow>
     w' = w @ concat (map (\<lambda>row.
            [Print (''[PUBLISH] '' @ dev @ '' '' @ [CHR 0xE2, CHR 0x86, CHR 0x92] @ '' '' @ TOPIC
                    @ '': '' @ json_dumps env (VDict [(''device_id'', VStr dev), (''data'', row)])),
             IotPublish TOPIC 0 (json_dumps env (VDict [(''device_id'', VStr dev), (''data'', row)])),
             Sleep (fl (2 / 10))]) rows)"
proof (induction rows arbitrary: w)
  case Nil
  then show ?case by simp
next
  case (Cons row rows)
  from Cons.prems have
    "publish_car_rows env iot dev rows
       (w @ [Print (''[PUBLISH] '' @ dev @ '' '' @ [CHR 0xE2, CHR 0x86, CHR 0x92] @ '' '' @ TOPIC
                    @ '': '' @ json_dumps env (VDict [(''device_id'', VStr dev), (''data'', row)])),
             IotPublish TOPIC 0 (json_dumps env (VDict [(''device_id'', VStr dev), (''data'', row)])),
             Sleep (fl (2 / 10))]) = (None, w')"
    by (simp add: Let_def split: option.splits)
  from Cons.IH [OF this] show ?case by simp
qed

lemma publish_car_rows_returns:
  "\<forall>v t q p. iot v t q p = None \<Longrightarrow> fst (publish_car_rows env iot dev rows w) = None"
  by (induction rows arbitrary: w) (simp_all add: Let_def)

lemma string_of_nat_1:
  "string_of_nat (Suc 0) = ''1''"
  "string_of_nat 1 = ''1''"
  by (simp_all add: string_of_nat.simps [of "Suc 0"])

lemma string_of_nat_2: "string_of_nat 2 = ''2''"
  by (simp add: string_of_nat.simps [of 2])

lemma data_path_1:
  "data_path_template (Suc 0) = ''vehicle-data/vehicle1.csv''"
  "data_path_template 1 = ''vehicle-data/vehicle1.csv''"
  by (simp_all add: data_path_template_def VEHICLE_DATA_DIR_def string_of_nat_1)

lemma data_path_2: "data_path_template 2 = ''vehicle-data/vehicle2.csv''"
  by (simp add: data_path_template_def VEHICLE_DATA_DIR_def string_of_nat_2)

lemma fs_car2_only_1:
  "fs_car2_only (data_path_template (Suc 0)) = None"
  "fs_car2_only (data_path_template 1) = None"
  by (simp_all add: data_path_1 fs_car2_only_def)

lemma fs_car2_only_2: "fs_car2_only (data_path_template 2) = Some (Inr [row_a, row_b])"
  by (simp add: data_path_2 fs_car2_only_def)

text \<open>
  C6. For a device whose dataset file holds the rows \<open>rows\<close>, an invocation of
  \<open>MQTTClient.publish\<close> that returns has done, for each row in file order, one print, one
  \<open>publishAsync\<close> of the serialised row and one sleep of \<open>0.2\<close> seconds, and nothing else: it
  has sent \<open>length rows\<close> messages, a sleep between any two of them; and it does return
  when the SDK accepts every call. The same holds for \<open>publish_car_data\<close> of the HTTPS
  publisher, whose message for a row is the serialised pair of the device id and the row.
\<close>

theorem publish_sends_each_row:
  "(fs (data_path_template (numeric_id self)) = Some (Inr rows) \<and>
    MQTTClient_publish env fs sdk self tpc w = (None, w') \<longrightarrow>
      w' = w @ concat (map (\<lambda>row.
             [Print (''Publishing from '' @ device_id self @ '': '' @ json_dumps env row),
              PublishAsync (device_id self) tpc (json_dumps env row) 0,
              Sleep (fl (2 / 10))]) rows) \<and>
      async_publishes w' =
        async_publishes w @ map (\<lambda>row. (device_id self, tpc, json_dumps env row, 0)) rows \<and>
      length (async_publishes w') = length (async_publishes w) + length rows) \<and>
   (fs (data_path_template (numeric_id self)) = Some (Inr rows) \<and>
    (\<forall>v d t p q. sdk_publishAsync sdk v d t p q = None) \<longrightarrow>
      fst (MQTTClient_publish env fs sdk self tpc w) = None) \<and>
   (fs (data_path_template car_id) = Some (Inr rows) \<and>
    publish_car_data env fs iot car_id u = (None, u') \<longrightarrow>
      u' = u @ Print (''[INFO] Publishing data for lab4-car-'' @ string_of_nat car_id
                      @ '' from '' @ data_path_template car_id)
             # concat (map (\<lambda>row.
                 [Print (''[PUBLISH] lab4-car-'' @ string_of_nat car_id @ '' ''
                         @ [CHR 0xE2, CHR 0x86, CHR 0x92] @ '' vehicle/emission/data: ''
                         @ json_dumps env
                             (VDict [(''device_id'', VStr (''lab4-car-'' @ string_of_nat car_id)),
                                     (''data'', row)])),
                  IotPublish ''vehicle/emission/data'' 0
                    (json_dumps env
                       (VDict [(''device_id'', VStr (''lab4-car-'' @ string_of_nat car_id)),
                               (''data'', row)])),
                  Sleep (fl (2 / 10))]) rows) \<and>
      iot_publishes u' =
        iot_publishes u @
          map (\<lambda>row. (''vehicle/emission/data'', 0,
                 json_dumps env
                   (VDict [(''device_id'', VStr (''lab4-car-'' @ string_of_nat car_id)),
                           (''data'', row)]))) rows \<and>
      length (iot_publishes u') = length (iot_publishes u) + length rows) \<and>
   (fs (data_path_template car_id) = Some (Inr rows) \<and> (\<forall>v t q p. iot v t q p = None) \<longrightarrow>
      fst (publish_car_data env fs iot car_id u) = None)"
proof (intro conjI impI)
  assume a: "fs (data_path_template (numeric_id self)) = Some (Inr rows) \<and>
    MQTTClient_publish env fs sdk self tpc w = (None, w')"
  then have "MQTTClient_publish_rows env sdk self tpc rows w = (None, w')"
    by (auto simp add: MQTTClient_publish_def)
  then show t: "w' = w @ concat (map (\<lambda>row.
             [Print (''Publishing from '' @ device_id self @ '': '' @ json_dumps env row),
              PublishAsync (device_id self) tpc (json_dumps env row) 0,
              Sleep (fl (2 / 10))]) rows)"
    by (rule MQTTClient_publish_rows_trace)
  show p: "async_publishes w' =
        async_publishes w @ map (\<lambda>row. (device_id self, tpc, json_dumps env row, 0)) rows"
    unfolding t async_publishes_append async_publishes_rows ..
  show "length (async_publishes w') = length (async_publishes w) + length rows"
    unfolding p by simp
next
  assume "fs (data_path_template (numeric_id self)) = Some (Inr rows) \<and>
    (\<forall>v d t p q. sdk_publishAsync sdk v d t p q = None)"
  then show "fst (MQTTClient_publish env fs sdk self tpc w) = None"
    by (simp add: MQTTClient_publish_def MQTTClient_publish_rows_returns)
next
  assume a: "fs (data_path_template car_id) = Some (Inr rows) \<and>
    publish_car_data env fs iot car_id u = (None, u')"
  then have "publish_car_rows env iot (''lab4-car-'' @ string_of_nat car_id) rows
      (u @ [Print (''[INFO] Publishing data for lab4-car-'' @ string_of_nat car_id
                   @ '' from '' @ data_path_template car_id)]) = (None, u')"
    by (auto simp add: publish_car_data_def Let_def)
  from publish_car_rows_trace [OF this]
  show t: "u' = u @ Print (''[INFO] Publishing data for lab4-car-'' @ string_of_nat car_id
                      @ '' from '' @ data_path_template car_id)
             # concat (map (\<lambda>row.
                 [Print (''[PUBLISH] lab4-car-'' @ string_of_nat car_id @ '' ''
                         @ [CHR 0xE2, CHR 0x86, CHR 0x92] @ '' vehicle/emission/data: ''
                         @ json_dumps env
                             (VDict [(''device_id'', VStr (''lab4-car-'' @ string_of_nat car_id)),
                                     (''data'', row)])),
                  IotPublish ''vehicle/emission/data'' 0
                    (json_dumps env
                       (VDict [(''device_id'', VStr (''lab4-car-'' @ string_of_nat car_id)),
                               (''data'', row)])),
                  Sleep (fl (2 / 10))]) rows)"
    by (simp add: TOPIC_def)
  have "iot_publishes (u @ [Print (''[INFO] Publishing data for lab4-car-''
            @ string_of_nat car_id @ '' from '' @ data_path_template car_id)]) = iot_publishes u"
    by (simp add: iot_publishes_def)
  then show p: "iot_publishes u' =
        iot_publishes u @
          map (\<lambda>row. (''vehicle/emission/data'', 0,
                 json_dumps env
                   (VDict [(''device_id'', VStr (''lab4-car-'' @ string_of_nat car_id)),
                           (''data'', row)]))) rows"
    unfolding t
    using iot_publishes_append
      [of "u @ [Print (''[INFO] Publishing data for lab4-car-''
            @ string_of_nat car_id @ '' from '' @ data_path_template car_id)]"]
    by (simp add: iot_publishes_rows)
  show "length (iot_publishes u') = length (iot_publishes u) + length rows"
    unfolding p by simp
next
  assume "fs (data_path_template car_id) = Some (Inr rows) \<and> (\<forall>v t q p. iot v t q p = None)"
  then show "fst (publish_car_data env fs iot car_id u) = None"
    by (simp add: publish_car_data_def publish_car_rows_returns)
qed

theorem publish_sends_each_row_witness:
  "fs_car2_only (data_path_template (numeric_id (MQTTClient_init 2))) = Some (Inr [row_a, row_b]) \<and>
   MQTTClient_publish sample_env fs_car2_only sdk_up (MQTTClient_init 2)
       ''vehicle/emission/data'' [] =
     (None,
      [Print (''Publishing from lab4-car-2: '' @ json_dumps sample_env row_a),
       PublishAsync ''lab4-car-2'' ''vehicle/emission/data'' (json_dumps sample_env row_a) 0,
       Sleep (fl (2 / 10)),
       Print (''Publishing from lab4-car-2: '' @ json_dumps sample_env row_b),
       PublishAsync ''lab4-car-2'' ''vehicle/emission/data'' (json_dumps sample_env row_b) 0,
       Sleep (fl (2 / 10))]) \<and>
   fs_car2_only (data_path_template 2) = Some (Inr [row_a, row_b]) \<and>
   iot_publishes (snd (publish_car_data sample_env fs_car2_only iot_up 2 [])) =
     [(''vehicle/emission/data'', 0,
       json_dumps sample_env (VDict [(''device_id'', VStr ''lab4-car-2''), (''data'', row_a)])),
      (''vehicle/emission/data'', 0,
       json_dumps sample_env (VDict [(''device_id'', VStr ''lab4-car-2''), (''data'', row_b)]))]"
proof -
  have f: "fs_car2_only (data_path_template (numeric_id (MQTTClient_init 2))) =
      Some (Inr [row_a, row_b])"
    by (simp add: MQTTClient_init_def fs_car2_only_2)
  have d: "device_id (MQTTClient_init 2) = ''lab4-car-2''"
    by (simp add: MQTTClient_init_def string_of_nat_2)
  have s: "\<forall>v d t p q. sdk_publishAsync sdk_up v d t p q = None"
    by (simp add: sdk_up_def)
  have i: "\<forall>v t q p. iot_up v t q p = None"
    by (simp add: iot_up_def)
  note t = publish_sends_each_row
    [where fs = fs_car2_only and env = sample_env and rows = "[row_a, row_b]"
       and self = "MQTTClient_init 2" and sdk = sdk_up and tpc = "''vehicle/emission/data''"
       and w = "[]" and car_id = 2 and iot = iot_up and u = "[]"]
  from t f s have
    "fst (MQTTClient_publish sample_env fs_car2_only sdk_up (MQTTClient_init 2)
       ''vehicle/emission/data'' []) = None"
    by blast
  then obtain w' where m: "MQTTClient_publish sample_env fs_car2_only sdk_up (MQTTClient_init 2)
       ''vehicle/emission/data'' [] = (None, w')"
    by (cases "MQTTClient_publish sample_env fs_car2_only sdk_up (MQTTClient_init 2)
       ''vehicle/emission/data'' []") simp
  from t [where w' = w'] f m have "w' = [] @ concat (map (\<lambda>row.
             [Print (''Publishing from '' @ device_id (MQTTClient_init 2) @ '': ''
                     @ json_dumps sample_env row),
              PublishAsync (device_id (MQTTClient_init 2)) ''vehicle/emission/data''
                (json_dumps sample_env row) 0,
              Sleep (fl (2 / 10))]) [row_a, row_b])"
    by blast
  then have w: "w' =
      [Print (''Publishing from lab4-car-2: '' @ json_dumps sample_env row_a),
       PublishAsync ''lab4-car-2'' ''vehicle/emission/data'' (json_dumps sample_env row_a) 0,
       Sleep (fl (2 / 10)),
       Print (''Publishing from lab4-car-2: '' @ json_dumps sample_env row_b),
       PublishAsync ''lab4-car-2'' ''vehicle/emission/data'' (json_dumps sample_env row_b) 0,
       Sleep (fl (2 / 10))]"
    by (simp add: d)
  from t fs_car2_only_2 i have
    "fst (publish_car_data sample_env fs_car2_only iot_up 2 []) = None"
    by blast
  then obtain u' where c: "publish_car_data sample_env fs_car2_only iot_up 2 [] = (None, u')"
    by (cases "publish_car_data sample_env fs_car2_only iot_up 2 []") simp
  from t [where u' = u'] fs_car2_only_2 c have "iot_publishes u' =
        iot_publishes [] @
          map (\<lambda>row. (''vehicle/emission/data'', 0,
                 json_dumps sample_env
                   (VDict [(''device_id'', VStr (''lab4-car-'' @ string_of_nat 2)),
                           (''data'', row)]))) [row_a, row_b]"
    by blast
  then have "iot_publishes (snd (publish_car_data sample_env fs_car2_only iot_up 2 [])) =
     [(''vehicle/emission/data'', 0,
       json_dumps sample_env (VDict [(''device_id'', VStr ''lab4-car-2''), (''data'', row_a)])),
      (''vehicle/emission/data'', 0,
       json_dumps sample_env (VDict [(''device_id'', VStr ''lab4-car-2''), (''data'', row_b)]))]"
    unfolding c by (simp add: string_of_nat_2 iot_publishes_def)
  with f m w fs_car2_only_2 show ?thesis by simp
qed

text \<open>
  C7 (as amended). In the HTTPS publisher a device whose dataset file is missing is skipped:
  \<open>publish_car_data\<close> prints a warning and returns, and the round goes on with the next
  device. In the MQTT publisher only the start-up loading loop does so (a warning, then the
  next device); \<open>MQTTClient.publish\<close> raises \<open>FileNotFoundError\<close> for such a device, the
  round \<open>for c in clients: c.publish()\<close> stops there and the exception ends the command loop.
\<close>

theorem missing_dataset_behaviour:
  "(fs (data_path_template car_id) = None \<longrightarrow>
      publish_car_data env fs iot car_id w =
        (None, w @ [Print (''[WARN] CSV not found for lab4-car-'' @ string_of_nat car_id
                           @ '': '' @ data_path_template car_id)]) \<and>
      publish_cars env fs iot (car_id # car_ids) w =
        publish_cars env fs iot car_ids
          (w @ [Print (''[WARN] CSV not found for lab4-car-'' @ string_of_nat car_id
                       @ '': '' @ data_path_template car_id)]) \<and>
      load_vehicle_data fs (car_id # car_ids) w =
        load_vehicle_data fs car_ids
          (w @ [Print (''WARNING: '' @ data_path_template car_id @ '' not found!'')])) \<and>
   (fs (data_path_template (numeric_id c)) = None \<longrightarrow>
      MQTTClient_publish env fs sdk c tpc w = (Some FileNotFoundError, w) \<and>
      publish_clients env fs sdk (c # cs) w = (Some FileNotFoundError, w) \<and>
      command_loop env fs sdk (c # cs) (''s'' # xs) w =
        (Some FileNotFoundError, w @ [Print ''Press 's' to send data or 'd' to disconnect:'']))"
  by (simp add: publish_car_data_def MQTTClient_publish_def Let_def)

theorem missing_dataset_behaviour_witness:
  "fs_car2_only (data_path_template 1) = None \<and>
   fs_car2_only (data_path_template (numeric_id (MQTTClient_init 1))) = None \<and>
   publish_car_data sample_env fs_car2_only iot_up 1 [] =
     (None, [Print ''[WARN] CSV not found for lab4-car-1: vehicle-data/vehicle1.csv'']) \<and>
   load_vehicle_data fs_car2_only [1, 2] [] =
     (None, [Print ''WARNING: vehicle-data/vehicle1.csv not found!'']) \<and>
   command_loop sample_env fs_car2_only sdk_up [MQTTClient_init 1, MQTTClient_init 2] [''s'', ''d'']
       [] =
     (Some FileNotFoundError, [Print ''Press 's' to send data or 'd' to disconnect:''])"
proof -
  have n: "fs_car2_only (data_path_template (numeric_id (MQTTClient_init 1))) = None"
    by (simp add: MQTTClient_init_def fs_car2_only_1)
  note t = missing_dataset_behaviour
    [where fs = fs_car2_only and car_id = 1 and c = "MQTTClient_init 1" and env = sample_env
       and w = "[]"]
  from t [where iot = iot_up] fs_car2_only_1 have
    "publish_car_data sample_env fs_car2_only iot_up 1 [] =
       (None, [] @ [Print (''[WARN] CSV not found for lab4-car-'' @ string_of_nat 1
                           @ '': '' @ data_path_template 1)])"
    by blast
  then have a: "publish_car_data sample_env fs_car2_only iot_up 1 [] =
     (None, [Print ''[WARN] CSV not found for lab4-car-1: vehicle-data/vehicle1.csv''])"
    by (simp add: string_of_nat_1 data_path_1)
  from t [where car_ids = "[2]"] fs_car2_only_1 have
    "load_vehicle_data fs_car2_only [1, 2] [] =
        load_vehicle_data fs_car2_only [2]
          ([] @ [Print (''WARNING: '' @ data_path_template 1 @ '' not found!'')])"
    by blast
  then have b: "load_vehicle_data fs_car2_only [1, 2] [] =
     (None, [Print ''WARNING: vehicle-data/vehicle1.csv not found!''])"
    by (simp add: fs_car2_only_2 data_path_1)
  from t [where sdk = sdk_up and cs = "[MQTTClient_init 2]" and xs = "[''d'']"] n have
    c: "command_loop sample_env fs_car2_only sdk_up [MQTTClient_init 1, MQTTClient_init 2]
          [''s'', ''d''] [] =
     (Some FileNotFoundError, [] @ [Print ''Press 's' to send data or 'd' to disconnect:''])"
    by blast
  from fs_car2_only_1 n a b c show ?thesis by simp
qed

text \<open>
  The claim as stated fails: in the MQTT publisher, with no dataset for car 1 and one for
  car 2, the round ends with \<open>FileNotFoundError\<close> at car 1 and nothing is sent for car 2.
\<close>

theorem publish_clients_missing_dataset:
  "fs_car2_only (data_path_template 2) = Some (Inr [row_a, row_b]) \<and>
   publish_clients sample_env fs_car2_only sdk_up [MQTTClient_init 1, MQTTClient_init 2] [] =
     (Some FileNotFoundError, []) \<and>
   async_publishes
     (snd (publish_clients sample_env fs_car2_only sdk_up
        [MQTTClient_init 1, MQTTClient_init 2] [])) = []"
proof -
  have "MQTTClient_publish sample_env fs_car2_only sdk_up (MQTTClient_init 1)
      ''vehicle/emission/data'' [] = (Some FileNotFoundError, [])"
    by (simp add: MQTTClient_publish_def MQTTClient_init_def fs_car2_only_1)
  then have "publish_clients sample_env fs_car2_only sdk_up
      [MQTTClient_init 1, MQTTClient_init 2] [] = (Some FileNotFoundError, [])"
    by simp
  then show ?thesis by (simp add: fs_car2_only_2 async_publishes_def)
qed

end
